theory Spec2Isabelle
  imports Complex_Main "HOL-Library.AList" "HOL-Library.Sublist" "HOL-Library.Multiset"
begin


section \<open>Python values used by the shopping-cart chatbot\<close>

text \<open>
  Text is a \<^typ>\<open>string\<close> holding the UTF-8 bytes of the Python string. Python integers
  are \<^typ>\<open>int\<close>. Python floats (prices, subtotals, totals, similarity ratios) are
  idealised as exact rationals: the binary representation error of a float is outside this
  model, the decimal rounding \<open>round(x, 2)\<close> is inside it.
\<close>

definition digit_char :: "nat \<Rightarrow> char" where
  "digit_char d = ''0123456789'' ! d"

fun str_nat :: "nat \<Rightarrow> string" where
  "str_nat n = (if n < 10 then [digit_char n] else str_nat (n div 10) @ [digit_char (n mod 10)])"

declare str_nat.simps [simp del]

text \<open>\<open>str(n)\<close> for a Python integer.\<close>

definition str_int :: "int \<Rightarrow> string" where
  "str_int i = (if i < 0 then ''-'' @ str_nat (nat (- i)) else str_nat (nat i))"

text \<open>
  \<open>round(x, 2)\<close>: the nearest multiple of 0.01, a tie going to the even one (what Python
  does on the exact value of its argument).
\<close>

definition round_half_even :: "rat \<Rightarrow> int" where
  "round_half_even y =
     (let f = \<lfloor>y\<rfloor>; d = y - of_int f
      in if d < 1 / 2 then f else if 1 / 2 < d then f + 1 else if even f then f else f + 1)"

definition round2 :: "rat \<Rightarrow> rat" where
  "round2 x = of_int (round_half_even (x * 100)) / 100"

text \<open>
  \<open>s.strip()\<close> removes the white space at both ends. The white space modelled is the ASCII
  one (tab, line feed, vertical tab, form feed, carriage return, the four separators
  0x1C to 0x1F, space); the code points beyond ASCII that Python also strips are not.
\<close>

definition is_space :: "char \<Rightarrow> bool" where
  "is_space ch = (ch \<in> set [CHR 0x09, CHR 0x0A, CHR 0x0B, CHR 0x0C, CHR 0x0D,
                              CHR 0x1C, CHR 0x1D, CHR 0x1E, CHR 0x1F, CHR 0x20])"

definition strip :: "string \<Rightarrow> string" where
  "strip s = rev (dropWhile is_space (rev (dropWhile is_space s)))"

text \<open>
  \<open>s.lower()\<close> and \<open>s.upper()\<close>, on the letters A to Z; the bytes of a character beyond
  ASCII are left as they are.
\<close>

definition lower_char :: "char \<Rightarrow> char" where
  "lower_char ch =
     (case map_of (zip ''ABCDEFGHIJKLMNOPQRSTUVWXYZ'' ''abcdefghijklmnopqrstuvwxyz'') ch of
        Some l \<Rightarrow> l
      | None \<Rightarrow> ch)"

definition lower :: "string \<Rightarrow> string" where
  "lower s = map lower_char s"

definition upper_char :: "char \<Rightarrow> char" where
  "upper_char ch =
     (case map_of (zip ''abcdefghijklmnopqrstuvwxyz'' ''ABCDEFGHIJKLMNOPQRSTUVWXYZ'') ch of
        Some u \<Rightarrow> u
      | None \<Rightarrow> ch)"

definition upper :: "string \<Rightarrow> string" where
  "upper s = map upper_char s"

text \<open>\<open>a in b\<close> on strings: \<open>a\<close> occurs in \<open>b\<close> as a contiguous substring.\<close>

fun contains :: "string \<Rightarrow> string \<Rightarrow> bool" where
  "contains [] a = (a = [])"
| "contains (x # b) a = (prefix a (x # b) \<or> contains b a)"

text \<open>A number below 100 on two digits (\<open>%02d\<close>).\<close>

definition pad2 :: "nat \<Rightarrow> string" where
  "pad2 n = [digit_char (n div 10 mod 10), digit_char (n mod 10)]"

text \<open>
  \<open>f"{x:.2f}"\<close>: the value rounded to 2 decimals, written with its sign, its integer part
  and exactly two decimals.
\<close>

definition format_2f :: "rat \<Rightarrow> string" where
  "format_2f x =
     (let cents = round_half_even (x * 100); a = nat \<bar>cents\<bar>
      in (if cents < 0 then ''-'' else []) @ str_nat (a div 100) @ ''.'' @ pad2 (a mod 100))"

section \<open>models/product.py\<close>

text \<open>
  Class \<open>Product\<close>. The field \<open>id\<close> is written \<open>id'\<close> (the name \<open>id\<close> is HOL's
  identity function).
\<close>

record Product =
  id' :: string
  name :: string
  price :: rat
  category :: string
  description :: string
  stock :: int

definition is_available :: "Product \<Rightarrow> int \<Rightarrow> bool" where
  "is_available p q = (stock p \<ge> q)"

section \<open>models/cart.py\<close>

record CartItem =
  product :: Product
  quantity :: int

definition subtotal :: "CartItem \<Rightarrow> rat" where
  "subtotal it = round2 (price (product it) * of_int (quantity it))"

text \<open>
  \<open>ShoppingCart.items\<close> is a Python dict from product id to \<open>CartItem\<close>: an association
  list in insertion order. \<open>d[k] = v\<close> is \<^const>\<open>AList.update\<close> (replace in place, or
  append a new key), \<open>del d[k]\<close> is \<^const>\<open>AList.delete\<close>, an assignment to a field of
  \<open>d[k]\<close> is \<^const>\<open>AList.map_entry\<close>, \<open>k in d\<close> and \<open>d.get(k)\<close> read \<^const>\<open>map_of\<close>.
\<close>

record ShoppingCart =
  items :: "(string \<times> CartItem) list"

text \<open>
  Every failure of the cart and order models is a Python \<open>ValueError\<close>; the constructors
  keep apart the places that raise it, and \<open>str_error\<close> gives the message each carries.
  \<open>ValidationError\<close> is a failed validation of a pydantic model, with the message of the
  validator (pydantic wraps it in a report of its own, which is not modelled);
  \<open>TypeError\<close> is Python's; \<open>ExternalCallError\<close> is a failure of the language model client,
  with its message.
  \<open>InsufficientStock p None\<close> is the check of the requested quantity alone,
  \<open>InsufficientStock p (Some n)\<close> the check of the new total when \<open>n\<close> are in the cart.
\<close>

datatype error =
    QuantityNotPositive
  | InsufficientStock Product "int option"
  | NotInCart string
  | QuantityNegative
  | EmptyCart
  | ValidationError string
  | TypeError string
  | ExternalCallError string

definition str_error :: "error \<Rightarrow> string" where
  "str_error e =
     (case e of
        QuantityNotPositive \<Rightarrow> ''La cantidad debe ser mayor que 0''
      | InsufficientStock p None \<Rightarrow>
          ''Stock insuficiente para '' @ name p @ ''. Disponible: '' @ str_int (stock p)
      | InsufficientStock p (Some n) \<Rightarrow>
          ''Stock insuficiente para '' @ name p @ ''. Tienes '' @ str_int n
            @ '' en el carrito, disponible: '' @ str_int (stock p)
      | NotInCart k \<Rightarrow>
          ''El producto con ID '' @ [CHR 0x27] @ k @ [CHR 0x27] @ '' no est''
            @ [CHR 0xC3, CHR 0xA1] @ '' en el carrito''
      | QuantityNegative \<Rightarrow> ''La cantidad no puede ser negativa''
      | EmptyCart \<Rightarrow>
          ''No se puede crear una orden con un carrito vac'' @ [CHR 0xC3, CHR 0xAD] @ ''o''
      | ValidationError m \<Rightarrow> m
      | TypeError m \<Rightarrow> m
      | ExternalCallError m \<Rightarrow> m)"

definition is_stock_error :: "error \<Rightarrow> bool" where
  "is_stock_error e = (case e of InsufficientStock p n \<Rightarrow> True | _ \<Rightarrow> False)"

definition is_not_in_cart_error :: "error \<Rightarrow> bool" where
  "is_not_in_cart_error e = (case e of NotInCart k \<Rightarrow> True | _ \<Rightarrow> False)"

text \<open>
  A method of the cart takes the cart and returns what the call returned (\<open>Inr\<close>) or raised
  (\<open>Inl\<close>), together with the cart as the call left it.
\<close>

type_synonym 'a result = "error + 'a"

definition has_product :: "ShoppingCart \<Rightarrow> string \<Rightarrow> bool" where
  "has_product c k = (map_of (items c) k \<noteq> None)"

definition get_item :: "ShoppingCart \<Rightarrow> string \<Rightarrow> CartItem option" where
  "get_item c k = map_of (items c) k"

definition add_item :: "Product \<Rightarrow> int \<Rightarrow> ShoppingCart \<Rightarrow> unit result \<times> ShoppingCart" where
  "add_item p q c =
     (if q \<le> 0 then (Inl QuantityNotPositive, c)
      else if \<not> is_available p q then (Inl (InsufficientStock p None), c)
      else (case map_of (items c) (id' p) of
              Some it \<Rightarrow>
                (let new_quantity = quantity it + q
                 in if \<not> is_available p new_quantity
                    then (Inl (InsufficientStock p (Some (quantity it))), c)
                    else (Inr (),
                          c\<lparr>items := AList.map_entry (id' p)
                                        (\<lambda>i. i\<lparr>quantity := new_quantity\<rparr>) (items c)\<rparr>))
            | None \<Rightarrow>
                (Inr (),
                 c\<lparr>items := AList.update (id' p) \<lparr>product = p, quantity = q\<rparr> (items c)\<rparr>)))"

definition remove_item :: "string \<Rightarrow> ShoppingCart \<Rightarrow> unit result \<times> ShoppingCart" where
  "remove_item k c =
     (if map_of (items c) k = None then (Inl (NotInCart k), c)
      else (Inr (), c\<lparr>items := AList.delete k (items c)\<rparr>))"

definition update_quantity :: "string \<Rightarrow> int \<Rightarrow> ShoppingCart \<Rightarrow> unit result \<times> ShoppingCart" where
  "update_quantity k q c =
     (case map_of (items c) k of
        None \<Rightarrow> (Inl (NotInCart k), c)
      | Some it \<Rightarrow>
          if q < 0 then (Inl QuantityNegative, c)
          else if q = 0 then remove_item k c
          else if \<not> is_available (product it) q
               then (Inl (InsufficientStock (product it) None), c)
               else (Inr (),
                     c\<lparr>items := AList.map_entry k (\<lambda>i. i\<lparr>quantity := q\<rparr>) (items c)\<rparr>))"

definition get_total :: "ShoppingCart \<Rightarrow> rat" where
  "get_total c = round2 (sum_list (map (\<lambda>(k, it). subtotal it) (items c)))"

definition get_item_count :: "ShoppingCart \<Rightarrow> int" where
  "get_item_count c = sum_list (map (\<lambda>(k, it). quantity it) (items c))"

definition is_empty :: "ShoppingCart \<Rightarrow> bool" where
  "is_empty c = (length (items c) = 0)"

definition clear :: "ShoppingCart \<Rightarrow> unit result \<times> ShoppingCart" where
  "clear c = (Inr (), c\<lparr>items := []\<rparr>)"

definition empty_cart :: ShoppingCart where
  "empty_cart = \<lparr>items = []\<rparr>"

text \<open>
  The quantity of a product already in the cart (0 when it has no line); the constraint
  \<open>gt=0\<close> that \<open>CartItem\<close> declares for its quantity, on every line of a cart; and the
  invariant of the cart: one line per product id, each line stored under the id of its
  own product, with a quantity of at least one.
\<close>

definition quantity_in_cart :: "ShoppingCart \<Rightarrow> string \<Rightarrow> int" where
  "quantity_in_cart c k = (case map_of (items c) k of None \<Rightarrow> 0 | Some it \<Rightarrow> quantity it)"

definition quantities_ok :: "ShoppingCart \<Rightarrow> bool" where
  "quantities_ok c = list_all (\<lambda>l. 0 < quantity (snd l)) (items c)"

definition line_ok :: "string \<times> CartItem \<Rightarrow> bool" where
  "line_ok l = (1 \<le> quantity (snd l) \<and> id' (product (snd l)) = fst l)"

definition cart_inv :: "ShoppingCart \<Rightarrow> bool" where
  "cart_inv c = (distinct (map fst (items c)) \<and> list_all line_ok (items c))"

text \<open>
  A caller that adds the quantities \<open>qs\<close> of one product in turn, stopping at the first
  call that raises: the position of that call and its error, and the cart it leaves.
\<close>

fun add_item_all :: "Product \<Rightarrow> int list \<Rightarrow> ShoppingCart \<Rightarrow> (nat \<times> error) option \<times> ShoppingCart" where
  "add_item_all p [] c = (None, c)"
| "add_item_all p (q # qs) c =
     (case add_item p q c of
        (Inl e, c') \<Rightarrow> (Some (0, e), c')
      | (Inr u, c') \<Rightarrow>
          (case add_item_all p qs c' of
             (Some (i, e), c'') \<Rightarrow> (Some (Suc i, e), c'')
           | (None, c'') \<Rightarrow> (None, c'')))"

text \<open>
  The position of the first quantity of \<open>qs\<close> with which the cumulative quantity,
  starting from \<open>cur\<close>, exceeds the stock \<open>s\<close>.
\<close>

fun first_exceeding :: "int \<Rightarrow> int \<Rightarrow> int list \<Rightarrow> nat option" where
  "first_exceeding s cur [] = None"
| "first_exceeding s cur (q # qs) =
     (if s < cur + q then Some 0 else map_option Suc (first_exceeding s (cur + q) qs))"

text \<open>Sequences of calls on one cart; a call that raises leaves the cart as it was.\<close>

datatype cart_op =
    AddItem Product int
  | UpdateQuantity string int
  | RemoveItem string
  | Clear

fun apply_op :: "cart_op \<Rightarrow> ShoppingCart \<Rightarrow> unit result \<times> ShoppingCart" where
  "apply_op (AddItem p q) c = add_item p q c"
| "apply_op (UpdateQuantity k q) c = update_quantity k q c"
| "apply_op (RemoveItem k) c = remove_item k c"
| "apply_op Clear c = clear c"

fun run_ops :: "cart_op list \<Rightarrow> ShoppingCart \<Rightarrow> ShoppingCart" where
  "run_ops [] c = c"
| "run_ops (op # ops) c = run_ops ops (snd (apply_op op c))"

definition is_clear :: "cart_op \<Rightarrow> bool" where
  "is_clear op = (case op of Clear \<Rightarrow> True | _ \<Rightarrow> False)"



subsection \<open>Products of tests/test_basic.py\<close>

definition camiseta_test :: Product where
  "camiseta_test =
     \<lparr>id' = ''prod_001'', name = ''Camiseta Test'', price = 1999 / 100, category = ''ropa'',
      description = [], stock = 50\<rparr>"

definition producto_1 :: Product where
  "producto_1 =
     \<lparr>id' = ''p1'', name = ''Producto 1'', price = 10, category = ''test'',
      description = [], stock = 10\<rparr>"

definition producto_2 :: Product where
  "producto_2 =
     \<lparr>id' = ''p2'', name = ''Producto 2'', price = 20, category = ''test'',
      description = [], stock = 10\<rparr>"

section \<open>models/order.py\<close>

text \<open>
  The cart of a conversation and the cart of an order are objects: \<open>state["cart"]\<close> and
  \<open>order.cart\<close> are references, the methods of \<open>ShoppingCart\<close> mutate the object in place,
  and \<open>deepcopy\<close> makes a new object. The store holds the cart objects; an address is a
  position in it, so a new object gets the address \<open>length h\<close>. The \<open>CartItem\<close> and
  \<open>Product\<close> objects inside a cart are held by value: the program never shares a
  \<open>CartItem\<close> between two carts, and never assigns to a field of a \<open>Product\<close>.
\<close>

type_synonym addr = nat

type_synonym store = "ShoppingCart list"

definition on_cart :: "addr \<Rightarrow> (ShoppingCart \<Rightarrow> 'a \<times> ShoppingCart) \<Rightarrow> store \<Rightarrow> 'a \<times> store" where
  "on_cart a m h = (case m (h ! a) of (r, c') \<Rightarrow> (r, h[a := c']))"

definition deepcopy :: "addr \<Rightarrow> store \<Rightarrow> addr \<times> store" where
  "deepcopy a h = (length h, h @ [h ! a])"

text \<open>What the order reads from its environment: the clock and the random UUID.\<close>

record datetime =
  year :: nat
  month :: nat
  day :: nat
  hour :: nat
  minute :: nat
  second :: nat

record env =
  now_id :: datetime
  uuid4_hex :: string
  now_created :: datetime

text \<open>
  Class \<open>Order\<close>. The fields \<open>cart\<close>, \<open>customer_name\<close>, \<open>customer_city\<close> and \<open>total\<close> carry
  the prefix \<open>order_\<close>: the conversation state has fields of the same names, and \<open>total\<close> is
  a constant of HOL.
\<close>

record Order =
  order_id :: string
  order_cart :: addr
  order_customer_name :: string
  order_customer_city :: string
  order_total :: rat
  timestamp :: datetime

text \<open>\<open>now.strftime("%Y%m%d-%H%M%S")\<close>, for a year of four digits.\<close>

definition strftime :: "datetime \<Rightarrow> string" where
  "strftime t =
     pad2 (year t div 100) @ pad2 (year t mod 100) @ pad2 (month t) @ pad2 (day t) @ ''-''
       @ pad2 (hour t) @ pad2 (minute t) @ pad2 (second t)"

definition generate_order_id :: "env \<Rightarrow> string" where
  "generate_order_id e = ''ORD-'' @ strftime (now_id e) @ ''-'' @ take 6 (uuid4_hex e)"

text \<open>
  The validation that the constructor \<open>Order(...)\<close> runs, in the order of the fields:
  \<open>validate_cart_not_empty\<close>; \<open>min_length=1\<close> and \<open>validate_non_empty_string\<close> on the
  name and on the city; \<open>ge=0\<close> and \<open>validate_total\<close>. The first failure is the error.
\<close>

definition Order_init ::
  "string \<Rightarrow> addr \<Rightarrow> string \<Rightarrow> string \<Rightarrow> rat \<Rightarrow> datetime \<Rightarrow> store \<Rightarrow> Order result" where
  "Order_init oid c customer_name customer_city total_v ts h =
     (if is_empty (h ! c) then Inl (ValidationError (str_error EmptyCart))
      else if customer_name = [] \<or> customer_city = []
        then Inl (ValidationError ''String should have at least 1 character'')
      else if strip customer_name = [] \<or> strip customer_city = []
        then Inl (ValidationError (''El campo no puede estar vac'' @ [CHR 0xC3, CHR 0xAD] @ ''o''))
      else if total_v < 0
        then Inl (ValidationError ''Input should be greater than or equal to 0'')
      else Inr \<lparr>order_id = oid, order_cart = c,
                order_customer_name = strip customer_name,
                order_customer_city = strip customer_city,
                order_total = round2 total_v, timestamp = ts\<rparr>)"

definition create_from_cart ::
  "env \<Rightarrow> addr \<Rightarrow> string \<Rightarrow> string \<Rightarrow> store \<Rightarrow> Order result \<times> store" where
  "create_from_cart e c customer_name customer_city h =
     (if is_empty (h ! c) then (Inl EmptyCart, h)
      else (case deepcopy c h of
              (cart_copy, h') \<Rightarrow>
                (Order_init (generate_order_id e) cart_copy customer_name customer_city
                   (get_total (h' ! c)) (now_created e) h', h')))"



text \<open>
  An environment for the examples: the clock of the example of the class (8 January 2026,
  14:30:22) and a UUID.
\<close>

definition example_env :: env where
  "example_env =
     \<lparr>now_id = \<lparr>year = 2026, month = 1, day = 8, hour = 14, minute = 30, second = 22\<rparr>,
      uuid4_hex = ''3f9a1c0b7d2e4f6a8b5c9d0e1f2a3b4c'',
      now_created = \<lparr>year = 2026, month = 1, day = 8, hour = 14, minute = 30, second = 22\<rparr>\<rparr>"

section \<open>app/services/catalog_service.py\<close>

text \<open>
  The loaded catalog: the dict \<open>_products\<close> from product id to product, in load order.
  \<open>SequenceMatcher(None, a, b).ratio()\<close> belongs to Python's \<open>difflib\<close>; the search takes
  it as the parameter \<open>ratio\<close>.
\<close>

type_synonym catalog = "(string \<times> Product) list"

definition get_all_products :: "catalog \<Rightarrow> Product list" where
  "get_all_products cat = map snd cat"

definition get_by_id :: "catalog \<Rightarrow> string \<Rightarrow> Product option" where
  "get_by_id cat k = map_of cat k"

definition get_by_name :: "catalog \<Rightarrow> string \<Rightarrow> Product option" where
  "get_by_name cat n =
     (let name_lower = strip (lower n)
      in find (\<lambda>p. lower (name p) = name_lower) (map snd cat))"

text \<open>The score that the loop of \<open>search_products\<close> gives one product.\<close>

definition best_ratio :: "(string \<Rightarrow> string \<Rightarrow> rat) \<Rightarrow> string \<Rightarrow> Product \<Rightarrow> rat" where
  "best_ratio ratio query_lower p =
     (let name_ratio = ratio query_lower (lower (name p));
          desc_ratio = ratio query_lower (lower (description p));
          cat_ratio = ratio query_lower (lower (category p));
          best = max name_ratio (max (desc_ratio * (8 / 10)) (cat_ratio * (9 / 10)))
      in if contains (lower (name p)) query_lower
            \<or> contains (lower (description p)) query_lower
            \<or> contains (lower (category p)) query_lower
         then max best (7 / 10) else best)"

text \<open>
  \<open>matches.sort(key=lambda x: x[1], reverse=True)\<close> is a stable sort by descending ratio:
  \<^const>\<open>sort_key\<close> on the negated ratio.
\<close>

definition search_products ::
  "(string \<Rightarrow> string \<Rightarrow> rat) \<Rightarrow> catalog \<Rightarrow> string \<Rightarrow> rat \<Rightarrow> Product list" where
  "search_products ratio cat query min_similarity =
     (let query_lower = strip (lower query)
      in if query_lower = [] then []
         else (let matches = filter (\<lambda>(p, r). r \<ge> min_similarity)
                               (map (\<lambda>p. (p, best_ratio ratio query_lower p)) (map snd cat))
               in map fst (sort_key (\<lambda>(p, r). - r) matches)))"



text \<open>
  A stand-in for \<open>ratio\<close> in the examples: 1 for equal strings and 0 otherwise, which are
  the values of \<open>difflib\<close> for equal strings and for strings with no character in common.
\<close>

definition ratio_equal :: "string \<Rightarrow> string \<Rightarrow> rat" where
  "ratio_equal a b = (if a = b then 1 else 0)"

definition test_catalog :: catalog where
  "test_catalog = [(''p1'', producto_1), (''p2'', producto_2), (''prod_001'', camiseta_test)]"

section \<open>graph/state.py\<close>

datatype UserIntent =
    BROWSE | MANAGE_CART | VIEW_CART | CHECKOUT | OUT_OF_CONTEXT | UNKNOWN | EXIT

text \<open>
  The stages carry the prefix \<open>Stage_\<close>: \<open>CHECKOUT\<close> is also an intent.
\<close>

datatype ConversationStage =
    Stage_WELCOME | Stage_SHOPPING | Stage_CHECKOUT | Stage_COMPLETED | Stage_ERROR

text \<open>The value of an intent (\<open>UserIntent\<close> is a \<open>str\<close> enumeration).\<close>

definition intent_value :: "UserIntent \<Rightarrow> string" where
  "intent_value i =
     (case i of BROWSE \<Rightarrow> ''browse'' | MANAGE_CART \<Rightarrow> ''manage_cart''
      | VIEW_CART \<Rightarrow> ''view_cart'' | CHECKOUT \<Rightarrow> ''checkout''
      | OUT_OF_CONTEXT \<Rightarrow> ''out_of_context'' | UNKNOWN \<Rightarrow> ''unknown'' | EXIT \<Rightarrow> ''exit'')"

text \<open>\<open>UserIntent(s)\<close>: the intent of that value, or a \<open>ValueError\<close> (\<open>None\<close>).\<close>

definition UserIntent_of :: "string \<Rightarrow> UserIntent option" where
  "UserIntent_of s =
     find (\<lambda>i. intent_value i = s)
       [BROWSE, MANAGE_CART, VIEW_CART, CHECKOUT, OUT_OF_CONTEXT, UNKNOWN, EXIT]"

text \<open>A message of the log: its type (\<open>human\<close> or \<open>ai\<close>) and its content.\<close>

datatype message = HumanMessage string | AIMessage string

definition content :: "message \<Rightarrow> string" where
  "content m = (case m of HumanMessage c \<Rightarrow> c | AIMessage c \<Rightarrow> c)"

definition is_human :: "message \<Rightarrow> bool" where
  "is_human m = (case m of HumanMessage c \<Rightarrow> True | AIMessage c \<Rightarrow> False)"

text \<open>
  One entry of \<open>last_search_results\<close> or of the candidate products: the dict with the keys
  \<open>id\<close>, \<open>name\<close>, \<open>price\<close>, \<open>category\<close>, \<open>stock\<close>.
\<close>

record product_summary =
  summary_id :: string
  summary_name :: string
  summary_price :: rat
  summary_category :: string
  summary_stock :: int

definition summary_of :: "Product \<Rightarrow> product_summary" where
  "summary_of p =
     \<lparr>summary_id = id' p, summary_name = name p, summary_price = price p,
      summary_category = category p, summary_stock = stock p\<rparr>"

text \<open>
  \<open>ConversationState\<close>. The field \<open>cart\<close> is the address of the cart object of the session;
  the field \<open>order\<close> is written \<open>order'\<close>.
\<close>

record ConversationState =
  messages :: "message list"
  cart :: addr
  current_intent :: UserIntent
  stage :: ConversationStage
  last_search_results :: "product_summary list option"
  last_product_id :: "string option"
  customer_name :: "string option"
  customer_city :: "string option"
  order' :: "Order option"
  session_id :: string

text \<open>
  What a request to the language model is made of: the arguments of the function of
  utils/prompts.py that writes its messages.
\<close>

record intent_context =
  context_stage :: ConversationStage
  cart_item_count :: int
  context_customer_name :: "string option"
  context_customer_city :: "string option"
  conversation_history :: "message list"
  last_product_name :: "string option"

datatype llm_request =
    IntentDetection string intent_context
  | CartExtraction string "string option" "message list" "product_summary list option"
  | OutOfContext string

text \<open>
  The world of a turn: the store of cart objects, the state of the conversation, and the
  requests sent to the language model so far. A node takes the world and returns
  \<open>Inr ()\<close> when it returns its state, \<open>Inl e\<close> when it raises \<open>e\<close>, with the world as it
  left it.
\<close>

record world =
  heap :: store
  st :: ConversationState
  llm_log :: "llm_request list"

text \<open>\<open>create_initial_state\<close>, with the new \<open>ShoppingCart()\<close> as the only object.\<close>

definition create_initial_state :: "string \<Rightarrow> world" where
  "create_initial_state sid =
     \<lparr>heap = [empty_cart],
      st = \<lparr>messages = [], cart = 0, current_intent = BROWSE, stage = Stage_WELCOME,
            last_search_results = None, last_product_id = None, customer_name = None,
            customer_city = None, order' = None, session_id = sid\<rparr>,
      llm_log = []\<rparr>"

definition get_last_user_message :: "ConversationState \<Rightarrow> string" where
  "get_last_user_message s =
     (case find is_human (rev (messages s)) of Some m \<Rightarrow> content m | None \<Rightarrow> [])"

text \<open>\<open>not x\<close> for an optional string: it is \<open>None\<close> or empty.\<close>

definition unset :: "string option \<Rightarrow> bool" where
  "unset x = (case x of None \<Rightarrow> True | Some s \<Rightarrow> s = [])"

section \<open>graph/edges.py\<close>

datatype route =
    Route_browse | Route_manage_cart | Route_view_cart | Route_checkout
  | Route_out_of_context | Route_END

definition route_by_intent :: "ConversationState \<Rightarrow> route" where
  "route_by_intent s =
     (let intent = current_intent s
      in if intent = EXIT then Route_END
         else if intent = BROWSE then Route_browse
         else if intent = MANAGE_CART then Route_manage_cart
         else if intent = VIEW_CART then Route_view_cart
         else if intent = CHECKOUT then Route_checkout
         else if intent = OUT_OF_CONTEXT then Route_out_of_context
         else Route_END)"

section \<open>graph/nodes.py\<close>

text \<open>
  The structured action that \<open>_extract_cart_action\<close> reads from the answer of the language
  model: the dict with the keys \<open>action\<close>, \<open>quantity\<close> (written \<open>quantity'\<close>) and
  \<open>product_ref\<close>, the latter read with its defaults for \<open>type\<close> and \<open>value\<close>. The quantity is
  taken to be an integer, as the prompt asks; an answer whose quantity is not one is outside
  the model.
\<close>

record product_reference =
  ref_type :: string
  ref_value :: string

record action_data =
  action :: string
  quantity' :: int
  product_ref :: product_reference

text \<open>
  What the nodes get from outside the repository: the loaded catalog
  (\<open>get_catalog_service()\<close>); the client of the language model (\<open>get_llm()\<close>, which raises or
  gives the function \<open>invoke\<close>, which raises or gives the content of the response);
  \<open>difflib\<close>'s ratio; \<open>json.loads\<close> followed by the reading of the three keys; the clock and
  the UUIDs of the order.
\<close>

record deps =
  catalog_service :: catalog
  get_llm :: "(llm_request \<Rightarrow> string result) result"
  sequence_ratio :: "string \<Rightarrow> string \<Rightarrow> rat"
  json_loads :: "string \<Rightarrow> action_data option"
  clock :: env

definition append_message :: "string \<Rightarrow> ConversationState \<Rightarrow> ConversationState" where
  "append_message text_v s = s\<lparr>messages := messages s @ [AIMessage text_v]\<rparr>"

definition handle_llm_error :: "error \<Rightarrow> string" where
  "handle_llm_error e =
     (let error_msg = str_error e
      in if contains error_msg ''API key'' \<or> contains error_msg ''401''
            \<or> contains error_msg ''Unauthorized''
         then ([CHR 0xE2, CHR 0x9A, CHR 0xA0, CHR 0xEF, CHR 0xB8, CHR 0x8F] @ '' Error de configuraci'' @ [CHR 0xC3, CHR 0xB3] @ ''n de API key. Por favor verifica tu archivo .env.'')
         else if contains error_msg ''429'' \<or> contains error_msg ''rate_limit''
              \<or> contains (lower error_msg) ''quota''
         then ([CHR 0xE2, CHR 0x9A, CHR 0xA0, CHR 0xEF, CHR 0xB8, CHR 0x8F] @ '' L'' @ [CHR 0xC3, CHR 0xAD] @ ''mite de rate de API excedido. Por favor espera unos minutos e intenta de nuevo.'')
         else ([CHR 0xE2, CHR 0x9D, CHR 0x8C] @ '' Ocurri'' @ [CHR 0xC3, CHR 0xB3] @ '' un error. Por favor intenta de nuevo.''))"

definition welcome_msg :: string where
  "welcome_msg =
     ([CHR 0xF0, CHR 0x9F, CHR 0x91, CHR 0x8B] @ '' **'' @ [CHR 0xC2, CHR 0xA1] @ ''Bienvenido a la tienda online!**\<newline>\<newline>'')
     @ (''Puedo ayudarte a:\<newline>'')
     @ ([CHR 0xF0, CHR 0x9F, CHR 0x93, CHR 0xA6] @ '' Ver productos: '' @ [CHR 0x27] @ ''Mu'' @ [CHR 0xC3, CHR 0xA9] @ ''strame los productos'' @ [CHR 0x27] @ ''\<newline>'')
     @ ([CHR 0xE2, CHR 0x9E, CHR 0x95] @ '' A'' @ [CHR 0xC3, CHR 0xB1] @ ''adir al carrito: '' @ [CHR 0x27] @ ''A'' @ [CHR 0xC3, CHR 0xB1] @ ''ade 2 Camiseta B'' @ [CHR 0xC3, CHR 0xA1] @ ''sica'' @ [CHR 0x27] @ ''\<newline>'')
     @ ([CHR 0xF0, CHR 0x9F, CHR 0x9B, CHR 0x92] @ '' Ver carrito: '' @ [CHR 0x27] @ ''Qu'' @ [CHR 0xC3, CHR 0xA9] @ '' llevo en el carrito'' @ [CHR 0x27] @ ''\<newline>'')
     @ ([CHR 0xF0, CHR 0x9F, CHR 0x92, CHR 0xB3] @ '' Comprar: '' @ [CHR 0x27] @ ''Quiero finalizar la compra'' @ [CHR 0x27] @ ''\<newline>'')
     @ ([CHR 0xF0, CHR 0x9F, CHR 0x91, CHR 0x8B] @ '' Salir: '' @ [CHR 0x27] @ ''Salir'' @ [CHR 0x27] @ ''\<newline>\<newline>'')
     @ ([CHR 0xC2, CHR 0xBF] @ ''Qu'' @ [CHR 0xC3, CHR 0xA9] @ '' te gustar'' @ [CHR 0xC3, CHR 0xAD] @ ''a hacer?'')"

definition show_welcome_message :: "world \<Rightarrow> unit result \<times> world" where
  "show_welcome_message w =
     (Inr (), w\<lparr>st := (append_message welcome_msg (st w))
                         \<lparr>stage := Stage_SHOPPING, current_intent := UNKNOWN\<rparr>\<rparr>)"

definition last_product_name_of :: "deps \<Rightarrow> ConversationState \<Rightarrow> string option" where
  "last_product_name_of d s =
     (if unset (last_product_id s) then None
      else map_option name (get_by_id (catalog_service d) (the (last_product_id s))))"

definition build_context :: "deps \<Rightarrow> world \<Rightarrow> intent_context" where
  "build_context d w =
     \<lparr>context_stage = stage (st w),
      cart_item_count = get_item_count (heap w ! cart (st w)),
      context_customer_name = customer_name (st w),
      context_customer_city = customer_city (st w),
      conversation_history = messages (st w),
      last_product_name = last_product_name_of d (st w)\<rparr>"

definition set_intent :: "UserIntent \<Rightarrow> world \<Rightarrow> world" where
  "set_intent i w = w\<lparr>st := (st w)\<lparr>current_intent := i\<rparr>\<rparr>"

definition detect_intent_node :: "deps \<Rightarrow> world \<Rightarrow> unit result \<times> world" where
  "detect_intent_node d w =
     (if length (messages (st w)) = 1 then show_welcome_message w
      else (let user_message = get_last_user_message (st w)
            in if user_message = [] then (Inr (), set_intent UNKNOWN w)
               else if stage (st w) = Stage_CHECKOUT
                       \<and> (unset (customer_name (st w)) \<or> unset (customer_city (st w)))
               then (Inr (), set_intent CHECKOUT w)
               else (case get_llm d of
                       Inl e \<Rightarrow> (Inr (), set_intent UNKNOWN w)
                     | Inr invoke \<Rightarrow>
                         (let request = IntentDetection user_message (build_context d w);
                              w' = w\<lparr>llm_log := llm_log w @ [request]\<rparr>
                          in case invoke request of
                               Inl e \<Rightarrow> (Inr (), set_intent UNKNOWN w')
                             | Inr response \<Rightarrow>
                                 (case UserIntent_of (lower (upper (strip response))) of
                                    Some intent \<Rightarrow> (Inr (), set_intent intent w')
                                  | None \<Rightarrow> (Inr (), set_intent UNKNOWN w'))))))"

text \<open>
  \<open>str(x)\<close> for a float with at most two decimals (a price): the integer part and the
  decimals without a trailing zero, at least one.
\<close>

definition str_float :: "rat \<Rightarrow> string" where
  "str_float x =
     (let cents = round_half_even (x * 100); a = nat \<bar>cents\<bar>
      in (if cents < 0 then ''-'' else []) @ str_nat (a div 100) @ ''.''
           @ (if a mod 10 = 0 then [digit_char (a mod 100 div 10)] else pad2 (a mod 100)))"

fun browse_lines :: "nat \<Rightarrow> Product list \<Rightarrow> string" where
  "browse_lines i [] = []"
| "browse_lines i (p # ps) =
     str_nat i @ ''. **'' @ name p @ ''** - $'' @ str_float (price p) @ '' ('' @ category p
       @ '') - Stock: '' @ str_int (stock p) @ (''\<newline>'') @ browse_lines (Suc i) ps"

definition browse_products_node :: "deps \<Rightarrow> world \<Rightarrow> unit result \<times> world" where
  "browse_products_node d w =
     (let products = get_all_products (catalog_service d);
          response = ([CHR 0xF0, CHR 0x9F, CHR 0x93, CHR 0xA6] @ '' **Productos disponibles:**\<newline>\<newline>'') @ browse_lines 1 products
            @ (''\<newline>'' @ [CHR 0xF0, CHR 0x9F, CHR 0x92, CHR 0xA1] @ '' Puedes decir: '' @ [CHR 0x27] @ ''A'' @ [CHR 0xC3, CHR 0xB1] @ ''ade 2 Camiseta B'' @ [CHR 0xC3, CHR 0xA1] @ ''sica Azul'' @ [CHR 0x27] @ '' o '' @ [CHR 0x27] @ ''Quiero producto 1'' @ [CHR 0x27])
      in (Inr (),
          w\<lparr>st := (append_message response
                      ((st w)\<lparr>last_search_results := Some (map summary_of products)\<rparr>))
                    \<lparr>stage := Stage_SHOPPING\<rparr>\<rparr>))"

subsection \<open>The manage-cart node\<close>

text \<open>
  \<open>s.split(sep)[1]\<close> when \<open>sep\<close> occurs in \<open>s\<close> is the text after its first occurrence up to
  the next one; \<open>s.split(sep)[0]\<close> is the text before the first occurrence.
\<close>

fun before_first :: "string \<Rightarrow> string \<Rightarrow> string" where
  "before_first sep [] = []"
| "before_first sep (x # xs) = (if prefix sep (x # xs) then [] else x # before_first sep xs)"

fun after_first :: "string \<Rightarrow> string \<Rightarrow> string" where
  "after_first sep [] = []"
| "after_first sep (x # xs) =
     (if prefix sep (x # xs) then drop (length sep) (x # xs) else after_first sep xs)"

text \<open>
  \<open>re.search(r'\{.*\}', content, re.DOTALL)\<close>: from the first opening brace to the last
  closing brace after it, when there is one.
\<close>

definition json_match :: "string \<Rightarrow> string option" where
  "json_match s =
     (let from_brace = dropWhile (\<lambda>ch. ch \<noteq> CHR 0x7B) s
      in if CHR 0x7D \<in> set from_brace
         then Some (rev (dropWhile (\<lambda>ch. ch \<noteq> CHR 0x7D) (rev from_brace)))
         else None)"

definition clean_llm_json_response :: "string \<Rightarrow> string" where
  "clean_llm_json_response content0 =
     (let content1 = strip content0;
          fence = [CHR 0x60, CHR 0x60, CHR 0x60];
          content2 =
            (if contains content1 (fence @ ''json'')
             then strip (before_first fence
                           (before_first (fence @ ''json'') (after_first (fence @ ''json'') content1)))
             else if contains content1 fence
             then strip (before_first fence (before_first fence (after_first fence content1)))
             else content1)
      in case json_match content2 of Some m \<Rightarrow> m | None \<Rightarrow> content2)"

definition extract_cart_action ::
  "deps \<Rightarrow> string \<Rightarrow> world \<Rightarrow> action_data option result \<times> world" where
  "extract_cart_action d user_message w =
     (case get_llm d of
        Inl e \<Rightarrow> (Inl e, w)
      | Inr invoke \<Rightarrow>
          (let last_product_name_v = last_product_name_of d (st w);
               search_results =
                 search_products (sequence_ratio d) (catalog_service d) user_message (3 / 10);
               candidate_products =
                 (if search_results = [] then None
                  else Some (map summary_of (take 10 search_results)));
               request = CartExtraction user_message last_product_name_v (messages (st w))
                           candidate_products;
               w' = w\<lparr>llm_log := llm_log w @ [request]\<rparr>
           in case invoke request of
                Inl e \<Rightarrow> (Inl e, w')
              | Inr response \<Rightarrow> (Inr (json_loads d (clean_llm_json_response response)), w')))"

text \<open>
  \<open>int(s)\<close> for a string: an optional sign and decimal digits, white space around them
  allowed; anything else is a \<open>ValueError\<close> (\<open>None\<close>).
\<close>

definition digit_value :: "char \<Rightarrow> nat option" where
  "digit_value ch = map_of (zip ''0123456789'' [0, 1, 2, 3, 4, 5, 6, 7, 8, 9]) ch"

definition nat_of_digits :: "string \<Rightarrow> nat option" where
  "nat_of_digits s =
     (if s = [] \<or> \<not> list_all (\<lambda>ch. digit_value ch \<noteq> None) s then None
      else Some (foldl (\<lambda>n ch. 10 * n + the (digit_value ch)) 0 s))"

definition int_of_str :: "string \<Rightarrow> int option" where
  "int_of_str s0 =
     (let s = strip s0
      in case s of
           [] \<Rightarrow> None
         | ch # rest \<Rightarrow>
             if ch = CHR 0x2D then map_option (\<lambda>n. - int n) (nat_of_digits rest)
             else if ch = CHR 0x2B then map_option int (nat_of_digits rest)
             else map_option int (nat_of_digits s))"

definition find_product :: "deps \<Rightarrow> action_data \<Rightarrow> world \<Rightarrow> Product option result" where
  "find_product d a w =
     (let cat = catalog_service d;
          t = ref_type (product_ref a);
          v = ref_value (product_ref a)
      in if t = ''last'' then
           (if unset (last_product_id (st w)) then Inr None
            else Inr (get_by_id cat (the (last_product_id (st w)))))
         else if t = ''id'' then Inr (get_by_id cat v)
         else if t = ''index'' then
           (case int_of_str v of
              None \<Rightarrow> Inr None
            | Some n \<Rightarrow>
                (let idx = n - 1
                 in if \<not> 0 \<le> idx then Inr None
                    else (case last_search_results (st w) of
                            None \<Rightarrow>
                              Inl (TypeError (''object of type '' @ [CHR 0x27] @ ''NoneType''
                                              @ [CHR 0x27] @ '' has no len()''))
                          | Some results \<Rightarrow>
                              if idx < int (length results)
                              then Inr (get_by_id cat (summary_id (results ! nat idx)))
                              else Inr None)))
         else if t = ''name'' then
           (case get_by_id cat v of
              Some p \<Rightarrow> Inr (Some p)
            | None \<Rightarrow> Inr (get_by_name cat v))
         else Inr None)"

definition msg_added :: "int \<Rightarrow> Product \<Rightarrow> string" where
  "msg_added q p = ([CHR 0xE2, CHR 0x9C, CHR 0x85] @ '' '') @ str_int q @ ''x '' @ name p @ ('' a'' @ [CHR 0xC3, CHR 0xB1] @ ''adido al carrito.'')"

definition msg_only_stock :: "Product \<Rightarrow> string" where
  "msg_only_stock p =
     ([CHR 0xE2, CHR 0x9A, CHR 0xA0, CHR 0xEF, CHR 0xB8, CHR 0x8F] @ '' Solo hay '') @ str_int (stock p) @ '' unidades de '' @ name p @ '' disponibles.''"

definition msg_removed :: "Product \<Rightarrow> string" where
  "msg_removed p = ([CHR 0xE2, CHR 0x9C, CHR 0x85] @ '' '') @ name p @ '' eliminado del carrito.''"

definition add_to_cart :: "addr \<Rightarrow> Product \<Rightarrow> int \<Rightarrow> store \<Rightarrow> string result \<times> store" where
  "add_to_cart c p q h =
     (if stock p \<ge> q then
        (case on_cart c (add_item p q) h of
           (Inl e, h') \<Rightarrow> (Inl e, h')
         | (Inr u, h') \<Rightarrow> (Inr (msg_added q p), h'))
      else (Inr (msg_only_stock p), h))"

definition update_cart_quantity ::
  "addr \<Rightarrow> Product \<Rightarrow> int \<Rightarrow> store \<Rightarrow> string result \<times> store" where
  "update_cart_quantity c p q h =
     (case get_item (h ! c) (id' p) of
        None \<Rightarrow>
          (if stock p \<ge> q then
             (case on_cart c (add_item p q) h of
                (Inl e, h') \<Rightarrow> (Inl e, h')
              | (Inr u, h') \<Rightarrow> (Inr (msg_added q p), h'))
           else (Inr (msg_only_stock p), h))
      | Some current_item \<Rightarrow>
          (let current_quantity = quantity current_item
           in if q = 0 then
                (case on_cart c (remove_item (id' p)) h of
                   (Inl e, h') \<Rightarrow> (Inl e, h')
                 | (Inr u, h') \<Rightarrow> (Inr (msg_removed p), h'))
              else if stock p \<ge> q then
                (case on_cart c (update_quantity (id' p) q) h of
                   (Inl e, h') \<Rightarrow> (Inl e, h')
                 | (Inr u, h') \<Rightarrow>
                     (Inr (([CHR 0xE2, CHR 0x9C, CHR 0x85] @ '' Cantidad de '') @ name p @ '' actualizada: ''
                           @ str_int current_quantity @ ('' '' @ [CHR 0xE2, CHR 0x86, CHR 0x92] @ '' '') @ str_int q), h'))
              else (Inr (msg_only_stock p), h)))"

definition remove_from_cart ::
  "addr \<Rightarrow> Product \<Rightarrow> int \<Rightarrow> store \<Rightarrow> string result \<times> store" where
  "remove_from_cart c p q h =
     (case get_item (h ! c) (id' p) of
        None \<Rightarrow> (Inr (([CHR 0xE2, CHR 0x9A, CHR 0xA0, CHR 0xEF, CHR 0xB8, CHR 0x8F] @ '' '') @ name p @ ('' no est'' @ [CHR 0xC3, CHR 0xA1] @ '' en tu carrito.'')), h)
      | Some current_item \<Rightarrow>
          (let current_quantity = quantity current_item
           in if q \<ge> current_quantity then
                (case on_cart c (remove_item (id' p)) h of
                   (Inl e, h') \<Rightarrow> (Inl e, h')
                 | (Inr u, h') \<Rightarrow> (Inr (msg_removed p), h'))
              else
                (let new_quantity = current_quantity - q
                 in case on_cart c (update_quantity (id' p) new_quantity) h of
                      (Inl e, h') \<Rightarrow> (Inl e, h')
                    | (Inr u, h') \<Rightarrow>
                        (Inr (([CHR 0xE2, CHR 0x9C, CHR 0x85] @ '' Reducida cantidad de '') @ name p @ '': ''
                              @ str_int current_quantity @ ('' '' @ [CHR 0xE2, CHR 0x86, CHR 0x92] @ '' '')
                              @ str_int new_quantity), h'))))"

definition execute_cart_action ::
  "action_data \<Rightarrow> Product \<Rightarrow> world \<Rightarrow> string result \<times> world" where
  "execute_cart_action a p w =
     (let c = cart (st w);
          r = (if action a = ''remove'' then remove_from_cart c p (quantity' a) (heap w)
               else if action a = ''update'' then update_cart_quantity c p (quantity' a) (heap w)
               else add_to_cart c p (quantity' a) (heap w))
      in (fst r, w\<lparr>heap := snd r\<rparr>))"

definition reply_shopping :: "string \<Rightarrow> world \<Rightarrow> unit result \<times> world" where
  "reply_shopping text_v w =
     (Inr (), w\<lparr>st := (append_message text_v (st w))\<lparr>stage := Stage_SHOPPING\<rparr>\<rparr>)"

definition send_cart_error_message :: "world \<Rightarrow> string \<Rightarrow> unit result \<times> world" where
  "send_cart_error_message w error_type =
     reply_shopping
       (if error_type = ''parse_error''
        then ([CHR 0xE2, CHR 0x9D, CHR 0x8C] @ '' No entend'' @ [CHR 0xC3, CHR 0xAD] @ '' eso. Intenta con: '' @ [CHR 0x27] @ ''A'' @ [CHR 0xC3, CHR 0xB1] @ ''ade 2 Camiseta B'' @ [CHR 0xC3, CHR 0xA1] @ ''sica'' @ [CHR 0x27] @ '' o '' @ [CHR 0x27] @ ''Quiero producto 1'' @ [CHR 0x27])
        else ([CHR 0xE2, CHR 0x9D, CHR 0x8C] @ '' No encontr'' @ [CHR 0xC3, CHR 0xA9] @ '' ese producto. Intenta con: '' @ [CHR 0x27] @ ''A'' @ [CHR 0xC3, CHR 0xB1] @ ''ade 2 Camiseta B'' @ [CHR 0xC3, CHR 0xA1] @ ''sica Azul'' @ [CHR 0x27] @ '' o '' @ [CHR 0x27] @ ''Quiero producto 1'' @ [CHR 0x27]))
       w"

definition manage_cart_node :: "deps \<Rightarrow> world \<Rightarrow> unit result \<times> world" where
  "manage_cart_node d w =
     (let user_message = get_last_user_message (st w)
      in case extract_cart_action d user_message w of
           (Inl e, w1) \<Rightarrow> reply_shopping (handle_llm_error e) w1
         | (Inr None, w1) \<Rightarrow> send_cart_error_message w1 ''parse_error''
         | (Inr (Some a), w1) \<Rightarrow>
             (case find_product d a w1 of
                Inl e \<Rightarrow> reply_shopping (handle_llm_error e) w1
              | Inr None \<Rightarrow> send_cart_error_message w1 ''product_not_found''
              | Inr (Some p) \<Rightarrow>
                  (let w2 = w1\<lparr>st := (st w1)\<lparr>last_product_id := Some (id' p)\<rparr>\<rparr>
                   in case execute_cart_action a p w2 of
                        (Inl e, w3) \<Rightarrow> reply_shopping (handle_llm_error e) w3
                      | (Inr response_text, w3) \<Rightarrow> reply_shopping response_text w3)))"

subsection \<open>The view-cart, checkout and out-of-context nodes\<close>

text \<open>The line of one cart item in the cart view and in the order confirmation.\<close>

definition item_line :: "CartItem \<Rightarrow> string" where
  "item_line it =
     ''- '' @ str_int (quantity it) @ ''x '' @ name (product it) @ '' - $''
       @ format_2f (subtotal it) @ (''\<newline>'')"

definition item_lines :: "ShoppingCart \<Rightarrow> string" where
  "item_lines c = concat (map (\<lambda>(k, it). item_line it) (items c))"

definition view_cart_node :: "deps \<Rightarrow> world \<Rightarrow> unit result \<times> world" where
  "view_cart_node d w =
     (let c = heap w ! cart (st w);
          response =
            (if is_empty c
             then ([CHR 0xF0, CHR 0x9F, CHR 0x9B, CHR 0x92] @ '' Tu carrito est'' @ [CHR 0xC3, CHR 0xA1] @ '' vac'' @ [CHR 0xC3, CHR 0xAD] @ ''o.\<newline>\<newline>'' @ [CHR 0xF0, CHR 0x9F, CHR 0x92, CHR 0xA1] @ '' Puedes ver productos con: '' @ [CHR 0x27] @ ''Mu'' @ [CHR 0xC3, CHR 0xA9] @ ''strame los productos'' @ [CHR 0x27])
             else ([CHR 0xF0, CHR 0x9F, CHR 0x9B, CHR 0x92] @ '' **Tu carrito:**\<newline>\<newline>'') @ item_lines c
                  @ (''\<newline>**Total: $'') @ format_2f (get_total c) @ ''**''
                  @ (''\<newline>\<newline>'' @ [CHR 0xF0, CHR 0x9F, CHR 0x92, CHR 0xA1] @ '' '' @ [CHR 0xC2, CHR 0xBF] @ ''Quieres finalizar la compra?''))
      in (Inr (), w\<lparr>st := append_message response (st w)\<rparr>))"

fun strip_name_prefix :: "string list \<Rightarrow> string \<Rightarrow> string" where
  "strip_name_prefix [] n = n"
| "strip_name_prefix (p # ps) n =
     (if prefix p (lower n) then strip (drop (length p) n) else strip_name_prefix ps n)"

definition extract_name_from_message :: "string \<Rightarrow> string option" where
  "extract_name_from_message m =
     (let n = strip_name_prefix [''mi nombre es'', ''me llamo'', ''soy'', ''mi nombre:''] (strip m)
      in if n = [] then None else Some n)"

definition collect_customer_name :: "world \<Rightarrow> string \<Rightarrow> unit result \<times> world" where
  "collect_customer_name w user_message =
     (let s = st w;
          s' =
            (if list_ex (\<lambda>word. contains (lower user_message) word)
                  [''comprar'', ''finalizar'', ''checkout'', ''pagar'']
             then append_message
                    ([CHR 0xF0, CHR 0x9F, CHR 0x93, CHR 0x9D] @ '' Para completar la compra necesito tus datos.\<newline>'' @ [CHR 0xC2, CHR 0xBF] @ ''Cu'' @ [CHR 0xC3, CHR 0xA1] @ ''l es tu nombre?'') s
             else (case extract_name_from_message user_message of
                     Some n \<Rightarrow>
                       append_message ([CHR 0xE2, CHR 0x9C, CHR 0x85] @ '' Perfecto. '' @ [CHR 0xC2, CHR 0xBF] @ ''En qu'' @ [CHR 0xC3, CHR 0xA9] @ '' ciudad?'')
                         (s\<lparr>customer_name := Some n\<rparr>)
                   | None \<Rightarrow>
                       append_message ([CHR 0xE2, CHR 0x9A, CHR 0xA0, CHR 0xEF, CHR 0xB8, CHR 0x8F] @ '' No entend'' @ [CHR 0xC3, CHR 0xAD] @ '' tu nombre. '' @ [CHR 0xC2, CHR 0xBF] @ ''Cu'' @ [CHR 0xC3, CHR 0xA1] @ ''l es tu nombre?'') s))
      in (Inr (), w\<lparr>st := s'\<lparr>stage := Stage_CHECKOUT\<rparr>\<rparr>))"

definition format_order_confirmation :: "Order \<Rightarrow> store \<Rightarrow> string" where
  "format_order_confirmation ordr h =
     ([CHR 0xE2, CHR 0x9C, CHR 0x85] @ '' **'' @ [CHR 0xC2, CHR 0xA1] @ ''Pedido confirmado!**\<newline>\<newline>'')
     @ ([CHR 0xF0, CHR 0x9F, CHR 0x93, CHR 0xA6] @ '' **Orden #'') @ order_id ordr @ (''**\<newline>'')
     @ ([CHR 0xF0, CHR 0x9F, CHR 0x91, CHR 0xA4] @ '' Cliente: '') @ order_customer_name ordr @ (''\<newline>'')
     @ ([CHR 0xF0, CHR 0x9F, CHR 0x93, CHR 0x8D] @ '' Ciudad: '') @ order_customer_city ordr @ (''\<newline>\<newline>'')
     @ (''**Productos:**\<newline>'')
     @ item_lines (h ! order_cart ordr)
     @ (''\<newline>'' @ [CHR 0xF0, CHR 0x9F, CHR 0x92, CHR 0xB0] @ '' **Total: $'') @ format_2f (order_total ordr) @ (''**\<newline>\<newline>'')
     @ ([CHR 0xC2, CHR 0xA1] @ ''Gracias por tu compra! '' @ [CHR 0xF0, CHR 0x9F, CHR 0x8E, CHR 0x89])"

text \<open>
  \<open>_complete_order\<close>. A name that is \<open>None\<close> fails the validation of \<open>Order\<close> as the empty
  name does.
\<close>

definition complete_order :: "deps \<Rightarrow> world \<Rightarrow> string \<Rightarrow> unit result \<times> world" where
  "complete_order d w city =
     (let s1 = (st w)\<lparr>customer_city := Some (strip city)\<rparr>
      in case create_from_cart (clock d) (cart s1)
                (case customer_name s1 of None \<Rightarrow> [] | Some n \<Rightarrow> n) (strip city) (heap w) of
           (Inl e, h1) \<Rightarrow> (Inl e, w\<lparr>heap := h1, st := s1\<rparr>)
         | (Inr ordr, h1) \<Rightarrow>
             (let response = format_order_confirmation ordr h1;
                  h2 = snd (on_cart (cart s1) clear h1)
              in (Inr (),
                  w\<lparr>heap := h2,
                    st := (append_message response (s1\<lparr>order' := Some ordr\<rparr>))
                            \<lparr>stage := Stage_COMPLETED\<rparr>\<rparr>)))"

definition checkout_node :: "deps \<Rightarrow> world \<Rightarrow> unit result \<times> world" where
  "checkout_node d w =
     (let user_message = get_last_user_message (st w)
      in if is_empty (heap w ! cart (st w)) then
           reply_shopping ([CHR 0xE2, CHR 0x9A, CHR 0xA0, CHR 0xEF, CHR 0xB8, CHR 0x8F] @ '' Tu carrito est'' @ [CHR 0xC3, CHR 0xA1] @ '' vac'' @ [CHR 0xC3, CHR 0xAD] @ ''o. A'' @ [CHR 0xC3, CHR 0xB1] @ ''ade productos antes de comprar.'') w
         else if unset (customer_name (st w)) then collect_customer_name w user_message
         else if unset (customer_city (st w)) then complete_order d w user_message
         else (Inr (), w))"

definition out_of_context_node :: "deps \<Rightarrow> world \<Rightarrow> unit result \<times> world" where
  "out_of_context_node d w =
     (let user_message = get_last_user_message (st w);
          fallback = (''Soy un asistente de compras y solo puedo ayudarte con productos. '')
                     @ ([CHR 0xC2, CHR 0xBF] @ ''Quieres ver nuestro cat'' @ [CHR 0xC3, CHR 0xA1] @ ''logo?'')
      in case get_llm d of
           Inl e \<Rightarrow> reply_shopping fallback w
         | Inr invoke \<Rightarrow>
             (let request = OutOfContext user_message;
                  w' = w\<lparr>llm_log := llm_log w @ [request]\<rparr>
              in case invoke request of
                   Inl e \<Rightarrow> reply_shopping fallback w'
                 | Inr response \<Rightarrow> reply_shopping (strip response) w'))"

section \<open>graph/builder.py and app/main.py\<close>

text \<open>
  One turn of the graph: \<open>detect_intent\<close>, then the node that \<open>route_by_intent\<close> names, then
  the end (\<open>should_continue\<close> always answers \<open>END\<close>). The nodes are composed on the state
  they return; what the graph library does with the state between two nodes is not
  modelled.
\<close>

definition run_handler :: "route \<Rightarrow> deps \<Rightarrow> world \<Rightarrow> unit result \<times> world" where
  "run_handler r d w =
     (case r of
        Route_browse \<Rightarrow> browse_products_node d w
      | Route_manage_cart \<Rightarrow> manage_cart_node d w
      | Route_view_cart \<Rightarrow> view_cart_node d w
      | Route_checkout \<Rightarrow> checkout_node d w
      | Route_out_of_context \<Rightarrow> out_of_context_node d w
      | Route_END \<Rightarrow> (Inr (), w))"

definition run_conversation_turn :: "deps \<Rightarrow> world \<Rightarrow> unit result \<times> world" where
  "run_conversation_turn d w =
     (case detect_intent_node d w of
        (Inl e, w') \<Rightarrow> (Inl e, w')
      | (Inr u, w') \<Rightarrow> run_handler (route_by_intent (st w')) d w')"

definition send_message :: "deps \<Rightarrow> string \<Rightarrow> world \<Rightarrow> unit result \<times> world" where
  "send_message d user_message w =
     run_conversation_turn d
       (w\<lparr>st := (st w)\<lparr>messages := messages (st w) @ [HumanMessage user_message]\<rparr>\<rparr>)"

text \<open>The messages that a node appended to the log.\<close>

definition new_messages :: "world \<Rightarrow> world \<Rightarrow> message list" where
  "new_messages w w' = drop (length (messages (st w))) (messages (st w'))"


section \<open>Examples\<close>

text \<open>
  The language model of tests/test_nodes_mocked.py, which answers \<open>BROWSE\<close> to every
  request, with the catalog of the tests; no answer is decoded as a cart action.
\<close>

definition test_deps :: deps where
  "test_deps =
     \<lparr>catalog_service = test_catalog,
      get_llm = Inr (\<lambda>request. Inr ''BROWSE''),
      sequence_ratio = ratio_equal,
      json_loads = (\<lambda>s. None),
      clock = example_env\<rparr>"

text \<open>
  A conversation in the checkout stage, with two \<open>Camiseta Test\<close> in the cart: the name
  and the city collected so far, and the message the user has just sent.
\<close>

definition checkout_world :: "string option \<Rightarrow> string option \<Rightarrow> string \<Rightarrow> world" where
  "checkout_world nm city user_message =
     \<lparr>heap = [\<lparr>items = [(''prod_001'', \<lparr>product = camiseta_test, quantity = 2\<rparr>)]\<rparr>],
      st = \<lparr>messages = [HumanMessage ''hola'', AIMessage welcome_msg,
                         HumanMessage user_message],
            cart = 0, current_intent = CHECKOUT, stage = Stage_CHECKOUT,
            last_search_results = None, last_product_id = Some ''prod_001'',
            customer_name = nm, customer_city = city, order' = None,
            session_id = ''test_001''\<rparr>,
      llm_log = []\<rparr>"

text \<open>
  A conversation in the shopping stage with \<open>n\<close> \<open>Camiseta Test\<close> in the cart, and a
  language model whose answer is decoded as the action \<open>a\<close>.
\<close>

definition shopping_world :: "int \<Rightarrow> string \<Rightarrow> world" where
  "shopping_world n user_message =
     \<lparr>heap = [\<lparr>items = [(''prod_001'', \<lparr>product = camiseta_test, quantity = n\<rparr>)]\<rparr>],
      st = \<lparr>messages = [HumanMessage ''hola'', AIMessage welcome_msg,
                         HumanMessage user_message],
            cart = 0, current_intent = MANAGE_CART, stage = Stage_SHOPPING,
            last_search_results = None, last_product_id = Some ''prod_001'',
            customer_name = None, customer_city = None, order' = None,
            session_id = ''test_001''\<rparr>,
      llm_log = []\<rparr>"

definition action_deps :: "action_data \<Rightarrow> deps" where
  "action_deps a =
     \<lparr>catalog_service = test_catalog,
      get_llm = Inr (\<lambda>request. Inr ''{}''),
      sequence_ratio = ratio_equal,
      json_loads = (\<lambda>s. Some a),
      clock = example_env\<rparr>"

definition add_camisetas :: "int \<Rightarrow> action_data" where
  "add_camisetas n =
     \<lparr>action = ''add'', quantity' = n,
      product_ref = \<lparr>ref_type = ''name'', ref_value = ''Camiseta Test''\<rparr>\<rparr>"

text \<open>
  A session with a second purchase. The language model classifies a message that contains
  \<open>comprar\<close> as CHECKOUT and any other as MANAGE_CART, and its answer to an extraction
  request is decoded as the action of adding two \<open>Camiseta Test\<close>.
\<close>

definition scripted_llm :: "llm_request \<Rightarrow> string result" where
  "scripted_llm request =
     (case request of
        IntentDetection m ctx \<Rightarrow>
          Inr (if contains (lower m) ''comprar'' then ''CHECKOUT'' else ''MANAGE_CART'')
      | CartExtraction m l h c \<Rightarrow> Inr ''{}''
      | OutOfContext m \<Rightarrow> Inr ''Puedo ayudarte con tus compras.'')"

definition scripted_deps :: deps where
  "scripted_deps =
     \<lparr>catalog_service = test_catalog,
      get_llm = Inr scripted_llm,
      sequence_ratio = ratio_equal,
      json_loads = (\<lambda>s. Some (add_camisetas 2)),
      clock = example_env\<rparr>"

text \<open>The worlds of that session, one after each message of the user.\<close>

definition world_1 :: world where
  "world_1 = snd (send_message scripted_deps ''hola'' (create_initial_state ''session_1''))"

definition world_2 :: world where
  "world_2 = snd (send_message scripted_deps ''quiero 2 camiseta test'' world_1)"

definition world_3 :: world where
  "world_3 = snd (send_message scripted_deps ''quiero comprar'' world_2)"

definition world_4 :: world where
  "world_4 = snd (send_message scripted_deps ''Juan'' world_3)"

definition world_5 :: world where
  "world_5 = snd (send_message scripted_deps ''Madrid'' world_4)"

definition world_6 :: world where
  "world_6 = snd (send_message scripted_deps ''quiero 2 camiseta test'' world_5)"

text \<open>
  The world on which the graph runs the checkout node when the user, after the second
  addition to the cart, asks to buy again: \<open>world_6\<close> with the message of the user, as the
  intent classifier leaves it.
\<close>

definition second_checkout_world :: world where
  "second_checkout_world =
     snd (detect_intent_node scripted_deps
            (world_6\<lparr>st := (st world_6)\<lparr>messages := messages (st world_6)
                                              @ [HumanMessage ''quiero comprar'']\<rparr>\<rparr>))"

section \<open>Verification of the cart\<close>

subsection \<open>The dict operations\<close>

lemma map_of_map_entry:
  "map_of (AList.map_entry k f xs) k' =
     (if k' = k then map_option f (map_of xs k) else map_of xs k')"
  by (induction xs) auto

lemma keys_map_entry: "map fst (AList.map_entry k f xs) = map fst xs"
  by (induction xs) auto

lemma list_all_map_entry:
  "list_all P xs \<Longrightarrow> (\<And>v. P (k, v) \<Longrightarrow> P (k, f v)) \<Longrightarrow> list_all P (AList.map_entry k f xs)"
  by (induction xs) auto

lemma list_all_update: "list_all P xs \<Longrightarrow> P (k, v) \<Longrightarrow> list_all P (AList.update k v xs)"
  by (induction xs) auto

lemma list_all_delete: "list_all P xs \<Longrightarrow> list_all P (AList.delete k xs)"
  by (induction xs) auto

lemma map_of_list_all: "list_all P xs \<Longrightarrow> map_of xs k = Some v \<Longrightarrow> P (k, v)"
  by (induction xs) (auto split: if_splits)

subsection \<open>The invariant is kept by every method\<close>

lemma add_item_inv: "cart_inv c \<Longrightarrow> cart_inv (snd (add_item p q c))"
  by (auto simp: add_item_def cart_inv_def Let_def keys_map_entry AList.distinct_update
      line_ok_def intro!: list_all_map_entry list_all_update split: option.splits
      dest: map_of_list_all)

lemma remove_item_inv: "cart_inv c \<Longrightarrow> cart_inv (snd (remove_item k c))"
  by (auto simp: remove_item_def cart_inv_def AList.distinct_delete intro!: list_all_delete)

lemma update_quantity_inv: "cart_inv c \<Longrightarrow> cart_inv (snd (update_quantity k q c))"
  using remove_item_inv[of c k]
  by (auto simp: update_quantity_def cart_inv_def keys_map_entry line_ok_def
      intro!: list_all_map_entry split: option.splits)

lemma clear_inv: "cart_inv (snd (clear c))"
  by (simp add: clear_def cart_inv_def)

lemma apply_op_inv: "cart_inv c \<Longrightarrow> cart_inv (snd (apply_op op c))"
  by (cases op) (simp_all add: add_item_inv remove_item_inv update_quantity_inv clear_inv)

lemma run_ops_inv: "cart_inv c \<Longrightarrow> cart_inv (run_ops ops c)"
  by (induction ops arbitrary: c) (simp_all add: apply_op_inv)

lemma empty_cart_inv: "cart_inv empty_cart"
  by (simp add: cart_inv_def empty_cart_def)

lemma cart_inv_quantities_ok: "cart_inv c \<Longrightarrow> quantities_ok c"
  by (auto simp: cart_inv_def quantities_ok_def line_ok_def list_all_iff)

subsection \<open>Adding to the cart\<close>

lemma add_item_quantities_ok: "quantities_ok c \<Longrightarrow> quantities_ok (snd (add_item p q c))"
  by (auto simp: add_item_def quantities_ok_def Let_def
      intro!: list_all_map_entry list_all_update split: option.splits dest: map_of_list_all)

lemma add_item_fst:
  assumes "quantities_ok c" "0 < q"
  shows "fst (add_item p q c) =
     (if stock p < quantity_in_cart c (id' p) + q
      then Inl (InsufficientStock p
                 (if stock p < q then None else Some (quantity_in_cart c (id' p))))
      else Inr ())"
  using assms
  by (auto simp: add_item_def quantity_in_cart_def is_available_def Let_def quantities_ok_def
      split: option.splits dest: map_of_list_all)

lemma add_item_fail_unchanged: "fst (add_item p q c) = Inl e \<Longrightarrow> snd (add_item p q c) = c"
  by (auto simp: add_item_def Let_def split: option.splits if_splits)

lemma add_item_quantity:
  "fst (add_item p q c) = Inr u \<Longrightarrow>
     quantity_in_cart (snd (add_item p q c)) (id' p) = quantity_in_cart c (id' p) + q"
  by (auto simp: add_item_def Let_def quantity_in_cart_def map_of_map_entry AList.update_conv'
      split: option.splits if_splits)

lemma add_item_all_first:
  "quantities_ok c \<Longrightarrow> list_all (\<lambda>q. 0 < q) qs \<Longrightarrow>
     first_exceeding (stock p) (quantity_in_cart c (id' p)) qs
       = map_option fst (fst (add_item_all p qs c))
   \<and> (\<forall>i e. fst (add_item_all p qs c) = Some (i, e) \<longrightarrow>
          is_stock_error e
        \<and> fst (add_item_all p (take i qs) c) = None
        \<and> snd (add_item_all p qs c) = snd (add_item_all p (take i qs) c))"
proof (induction qs arbitrary: c)
  case Nil
  then show ?case by simp
next
  case (Cons q qs)
  then have q: "0 < q" and qs: "list_all (\<lambda>q. 0 < q) qs" by simp_all
  note f = add_item_fst[OF Cons.prems(1) q, of p]
  show ?case
  proof (cases "stock p < quantity_in_cart c (id' p) + q")
    case True
    with f obtain e where e: "fst (add_item p q c) = Inl e" "is_stock_error e"
      by (auto simp: is_stock_error_def)
    from e(1) have "snd (add_item p q c) = c" by (rule add_item_fail_unchanged)
    with e True show ?thesis
      by (cases "add_item p q c") auto
  next
    case False
    with f have r: "fst (add_item p q c) = Inr ()" by simp
    let ?c' = "snd (add_item p q c)"
    have inv: "quantities_ok ?c'" by (rule add_item_quantities_ok[OF Cons.prems(1)])
    have qty: "quantity_in_cart ?c' (id' p) = quantity_in_cart c (id' p) + q"
      by (rule add_item_quantity[OF r])
    from Cons.IH[OF inv qs] qty
    have IH: "first_exceeding (stock p) (quantity_in_cart c (id' p) + q) qs =
              map_option fst (fst (add_item_all p qs ?c'))"
       "\<forall>i e. fst (add_item_all p qs ?c') = Some (i, e) \<longrightarrow>
          is_stock_error e
        \<and> fst (add_item_all p (take i qs) ?c') = None
        \<and> snd (add_item_all p qs ?c') = snd (add_item_all p (take i qs) ?c')"
      by simp_all
    show ?thesis using r False IH
      by (cases "add_item p q c"; cases "add_item_all p qs ?c'")
         (auto split: option.splits prod.splits)
  qed
qed

text \<open>
  C1. For every product \<open>p\<close>, every cart whose lines carry the positive quantities
  \<open>CartItem\<close> requires, and every quantity \<open>q > 0\<close>: \<open>add_item p q\<close> raises the stock error
  exactly when the stock of \<open>p\<close> is less than the quantity of \<open>p\<close> already in the cart plus
  \<open>q\<close>; it raises nothing else; a call that raises leaves the cart as it was. So when the
  positive quantities \<open>qs\<close> are added in turn, the call that raises is the first one whose
  cumulative quantity exceeds the stock, its error is the stock error, every call before it
  returned, and the cart is the one those calls built.
\<close>

theorem add_item_stock_error:
  assumes "quantities_ok c" and "0 < q" and "list_all (\<lambda>q. 0 < q) qs"
  shows "((\<exists>e. fst (add_item p q c) = Inl e \<and> is_stock_error e)
            \<longleftrightarrow> stock p < quantity_in_cart c (id' p) + q)
       \<and> (\<forall>e. fst (add_item p q c) = Inl e \<longrightarrow>
              is_stock_error e \<and> snd (add_item p q c) = c)
       \<and> map_option fst (fst (add_item_all p qs c))
            = first_exceeding (stock p) (quantity_in_cart c (id' p)) qs
       \<and> (\<forall>i e. fst (add_item_all p qs c) = Some (i, e) \<longrightarrow>
              is_stock_error e
            \<and> fst (add_item_all p (take i qs) c) = None
            \<and> snd (add_item_all p qs c) = snd (add_item_all p (take i qs) c))"
proof -
  have a: "(\<exists>e. fst (add_item p q c) = Inl e \<and> is_stock_error e)
            \<longleftrightarrow> stock p < quantity_in_cart c (id' p) + q"
    using add_item_fst[OF assms(1,2), of p] by (auto simp: is_stock_error_def)
  have b: "\<forall>e. fst (add_item p q c) = Inl e \<longrightarrow> is_stock_error e \<and> snd (add_item p q c) = c"
    using add_item_fst[OF assms(1,2), of p] add_item_fail_unchanged[of p q c]
    by (auto simp: is_stock_error_def split: if_splits)
  from add_item_all_first[OF assms(1,3), of p] a b show ?thesis by simp
qed

text \<open>The cart of the first test: two \<open>Camiseta Test\<close>.\<close>

lemma two_camisetas:
  "snd (add_item camiseta_test 2 empty_cart) =
     \<lparr>items = [(''prod_001'', \<lparr>product = camiseta_test, quantity = 2\<rparr>)]\<rparr>"
  by (simp add: add_item_def is_available_def camiseta_test_def empty_cart_def)

theorem add_item_stock_error_witness:
  "quantities_ok (snd (add_item camiseta_test 2 empty_cart)) \<and> (0::int) < 49
   \<and> list_all (\<lambda>q. 0 < q) [20, 20, 20 :: int]
   \<and> (\<exists>e. fst (add_item camiseta_test 49 (snd (add_item camiseta_test 2 empty_cart))) = Inl e
          \<and> is_stock_error e)
   \<and> snd (add_item camiseta_test 49 (snd (add_item camiseta_test 2 empty_cart)))
       = snd (add_item camiseta_test 2 empty_cart)
   \<and> map_option fst (fst (add_item_all camiseta_test [20, 20, 20]
        (snd (add_item camiseta_test 2 empty_cart)))) = Some 2"
proof -
  let ?c = "snd (add_item camiseta_test 2 empty_cart)"
  have h1: "quantities_ok ?c" by (simp add: two_camisetas quantities_ok_def)
  have h2: "(0::int) < 49" by simp
  have h3: "list_all (\<lambda>q. 0 < q) [20, 20, 20 :: int]" by simp
  have s: "stock camiseta_test = 50" "id' camiseta_test = ''prod_001''"
    by (simp_all add: camiseta_test_def)
  have qc: "quantity_in_cart ?c ''prod_001'' = 2"
    by (simp add: two_camisetas quantity_in_cart_def)
  note t = add_item_stock_error[OF h1 h2 h3, of camiseta_test]
  from t[THEN conjunct1]
  have a: "\<exists>e. fst (add_item camiseta_test 49 ?c) = Inl e \<and> is_stock_error e"
    by (simp add: s qc)
  with t[THEN conjunct2, THEN conjunct1]
  have b: "snd (add_item camiseta_test 49 ?c) = ?c" by blast
  have fe: "first_exceeding 50 2 [20, 20, 20] = Some 2" by simp
  from t[THEN conjunct2, THEN conjunct2, THEN conjunct1]
  have c: "map_option fst (fst (add_item_all camiseta_test [20, 20, 20] ?c)) = Some 2"
    by (simp only: s qc fe)
  from h1 h2 h3 a b c show ?thesis by blast
qed

subsection \<open>Removing from the cart\<close>

text \<open>
  C5. For every cart and product id: \<open>update_quantity k 0\<close> returns or raises what
  \<open>remove_item k\<close> does and leaves the same cart; after \<open>remove_item k\<close> the cart has no
  line for \<open>k\<close>; and when the cart has no line for \<open>k\<close>, \<open>update_quantity k q\<close> (for any
  \<open>q\<close>) and \<open>remove_item k\<close> raise the not-in-cart error and leave the cart as it was.
\<close>
theorem update_zero_is_remove:
  "update_quantity k 0 c = remove_item k c
   \<and> \<not> has_product (snd (remove_item k c)) k
   \<and> (\<not> has_product c k \<longrightarrow>
        (\<forall>q. update_quantity k q c = (Inl (NotInCart k), c))
        \<and> remove_item k c = (Inl (NotInCart k), c))"
  by (auto simp: update_quantity_def remove_item_def has_product_def AList.delete_conv'
      split: option.splits)

theorem update_zero_is_remove_witness:
  "has_product (snd (add_item camiseta_test 2 empty_cart)) ''prod_001''
   \<and> update_quantity ''prod_001'' 0 (snd (add_item camiseta_test 2 empty_cart)) = (Inr (), empty_cart)
   \<and> remove_item ''prod_001'' (snd (add_item camiseta_test 2 empty_cart)) = (Inr (), empty_cart)
   \<and> \<not> has_product empty_cart ''p1''
   \<and> update_quantity ''p1'' 3 empty_cart = (Inl (NotInCart ''p1''), empty_cart)
   \<and> remove_item ''p1'' empty_cart = (Inl (NotInCart ''p1''), empty_cart)"
proof -
  let ?c = "snd (add_item camiseta_test 2 empty_cart)"
  have r: "remove_item ''prod_001'' ?c = (Inr (), empty_cart)"
    by (simp add: two_camisetas remove_item_def) (simp add: empty_cart_def)
  have h: "has_product ?c ''prod_001''" by (simp add: two_camisetas has_product_def)
  have n: "\<not> has_product empty_cart ''p1''" by (simp add: has_product_def empty_cart_def)
  from update_zero_is_remove[of "''prod_001''" ?c] update_zero_is_remove[of "''p1''" empty_cart]
    r h n show ?thesis by simp
qed

subsection \<open>The total\<close>



lemma test_cart_operations:
  "run_ops [AddItem producto_1 2, AddItem producto_2 1, UpdateQuantity ''p1'' 5,
            RemoveItem ''p2''] empty_cart
     = \<lparr>items = [(''p1'', \<lparr>product = producto_1, quantity = 5\<rparr>)]\<rparr>"
  by (simp add: add_item_def update_quantity_def remove_item_def is_available_def
      producto_1_def producto_2_def empty_cart_def)




subsection \<open>The invariant of the cart\<close>

text \<open>
  C10. Starting from the empty cart, after every sequence of calls of \<open>add_item\<close>,
  \<open>update_quantity\<close>, \<open>remove_item\<close> and \<open>clear\<close> (a call that raises leaves the cart as
  it was) every line of the cart has a quantity of at least 1 and is stored under the id of
  its own product, and no product id has more than one line.
\<close>

theorem cart_invariant:
  "cart_inv (run_ops ops empty_cart)"
  by (rule run_ops_inv[OF empty_cart_inv])

theorem cart_invariant_witness:
  "cart_inv \<lparr>items = [(''p1'', \<lparr>product = producto_1, quantity = 5\<rparr>)]\<rparr>
   \<and> items (run_ops [AddItem producto_1 2, AddItem producto_2 1, UpdateQuantity ''p1'' 5,
                     RemoveItem ''p2''] empty_cart) \<noteq> []"
  using cart_invariant[of "[AddItem producto_1 2, AddItem producto_2 1,
         UpdateQuantity ''p1'' 5, RemoveItem ''p2'']"]
  by (simp only: test_cart_operations) simp

section \<open>Verification of the order\<close>















section \<open>Verification of the catalog search\<close>














section \<open>Verification of the conversation\<close>

subsection \<open>Trimming\<close>





subsection \<open>The checkout node\<close>





lemma item_line_in_lines:
  "(k, it) \<in> set (items c) \<Longrightarrow> sublist (item_line it) (item_lines c)"
proof -
  assume "(k, it) \<in> set (items c)"
  then obtain xs ys where "items c = xs @ (k, it) # ys" by (auto simp: in_set_conv_decomp)
  then have "item_lines c = concat (map (\<lambda>(k, it). item_line it) xs) @ item_line it
      @ concat (map (\<lambda>(k, it). item_line it) ys)"
    by (simp add: item_lines_def)
  then show ?thesis by (simp add: sublist_appendI)
qed


lemma checkout_world_fields:
  "heap (checkout_world nm city u) ! cart (st (checkout_world nm city u))
     = \<lparr>items = [(''prod_001'', \<lparr>product = camiseta_test, quantity = 2\<rparr>)]\<rparr>"
  "heap (checkout_world nm city u)
     = [\<lparr>items = [(''prod_001'', \<lparr>product = camiseta_test, quantity = 2\<rparr>)]\<rparr>]"
  "cart (st (checkout_world nm city u)) = 0"
  "length (heap (checkout_world nm city u)) = 1"
  "customer_name (st (checkout_world nm city u)) = nm"
  "customer_city (st (checkout_world nm city u)) = city"
  "stage (st (checkout_world nm city u)) = Stage_CHECKOUT"
  "length (messages (st (checkout_world nm city u))) = 3"
  "get_last_user_message (st (checkout_world nm city u)) = u"
  "llm_log (checkout_world nm city u) = []"
  by (simp_all add: checkout_world_def get_last_user_message_def is_human_def content_def)



subsection \<open>The intent classifier\<close>

text \<open>
  C7 (amended). For every user message that is not empty and not the first of the log,
  processed while the stage is CHECKOUT and the customer name or the customer city is
  unset, the intent classifier sets the current intent to CHECKOUT, changes nothing else,
  and sends no request to the language model, whatever the model and the catalog are.
\<close>

theorem detect_intent_checkout_override:
  assumes "length (messages (st w)) \<noteq> 1" and "get_last_user_message (st w) \<noteq> []"
    and "stage (st w) = Stage_CHECKOUT"
    and "unset (customer_name (st w)) \<or> unset (customer_city (st w))"
  shows "detect_intent_node d w = (Inr (), w\<lparr>st := (st w)\<lparr>current_intent := CHECKOUT\<rparr>\<rparr>)
       \<and> current_intent (st (snd (detect_intent_node d w))) = CHECKOUT
       \<and> llm_log (snd (detect_intent_node d w)) = llm_log w"
  using assms by (simp add: detect_intent_node_def Let_def set_intent_def)

text \<open>
  The claim as stated fails for the empty message: the classifier sets the intent to
  UNKNOWN before it looks at the stage.
\<close>

theorem detect_intent_empty_message_counterexample:
  "length (messages (st (checkout_world None None []))) = 3
   \<and> stage (st (checkout_world None None [])) = Stage_CHECKOUT
   \<and> unset (customer_name (st (checkout_world None None [])))
   \<and> current_intent (st (snd (detect_intent_node test_deps (checkout_world None None []))))
       = UNKNOWN"
  by (simp add: detect_intent_node_def Let_def set_intent_def checkout_world_fields unset_def)

theorem detect_intent_checkout_override_witness:
  "length (messages (st (checkout_world None None ''Juan''))) \<noteq> 1
   \<and> get_last_user_message (st (checkout_world None None ''Juan'')) \<noteq> []
   \<and> stage (st (checkout_world None None ''Juan'')) = Stage_CHECKOUT
   \<and> unset (customer_name (st (checkout_world None None ''Juan'')))
   \<and> current_intent (st (snd (detect_intent_node test_deps (checkout_world None None ''Juan''))))
       = CHECKOUT
   \<and> llm_log (snd (detect_intent_node test_deps (checkout_world None None ''Juan''))) = []"
proof -
  let ?w = "checkout_world None None ''Juan''"
  have h1: "length (messages (st ?w)) \<noteq> 1" by (simp add: checkout_world_fields)
  have h2: "get_last_user_message (st ?w) \<noteq> []" by (simp add: checkout_world_fields)
  have h3: "stage (st ?w) = Stage_CHECKOUT" by (simp add: checkout_world_fields)
  have h4: "unset (customer_name (st ?w))" by (simp add: checkout_world_fields unset_def)
  from h4 have h4': "unset (customer_name (st ?w)) \<or> unset (customer_city (st ?w))" by simp
  from detect_intent_checkout_override[OF h1 h2 h3 h4', of test_deps]
  have "current_intent (st (snd (detect_intent_node test_deps ?w))) = CHECKOUT"
    and "llm_log (snd (detect_intent_node test_deps ?w)) = []"
    by (simp_all add: checkout_world_fields)
  with h1 h2 h3 h4 show ?thesis by blast
qed

section \<open>Where the nodes depart from the specification\<close>

subsection \<open>Evaluation of the examples\<close>

lemma str_30: "str_int 30 = ''30''" "str_int 50 = ''50''"
  by (simp_all add: str_int_def str_nat.simps digit_char_def)

lemma generic: "handle_llm_error (InsufficientStock camiseta_test (Some 30))
   = [CHR 0xE2, CHR 0x9D, CHR 0x8C] @ '' Ocurri'' @ [CHR 0xC3, CHR 0xB3] @ '' un error. Por favor intenta de nuevo.''"
  by (simp add: handle_llm_error_def str_error_def Let_def str_30 camiseta_test_def lower_def lower_char_def)

lemma shopping_world_fields:
  "heap (shopping_world n u)
     = [\<lparr>items = [(''prod_001'', \<lparr>product = camiseta_test, quantity = n\<rparr>)]\<rparr>]"
  "cart (st (shopping_world n u)) = 0"
  "get_last_user_message (st (shopping_world n u)) = u"
  "length (messages (st (shopping_world n u))) = 3"
  by (simp_all add: shopping_world_def get_last_user_message_def is_human_def content_def)

lemma action_deps_fields:
  "get_llm (action_deps a) = Inr (\<lambda>request. Inr ''{}'')"
  "json_loads (action_deps a) = (\<lambda>s. Some a)"
  by (simp_all add: action_deps_def)

lemma camiseta_fields: "stock camiseta_test = 50" "id' camiseta_test = ''prod_001''"
  "name camiseta_test = ''Camiseta Test''"
  by (simp_all add: camiseta_test_def)

lemma add_camisetas_fields: "action (add_camisetas n) = ''add''" "quantity' (add_camisetas n) = n"
  by (simp_all add: add_camisetas_def)

lemma scripted_fields:
  "get_llm scripted_deps = Inr scripted_llm"
  "json_loads scripted_deps = (\<lambda>s. Some (add_camisetas 2))"
  "clock scripted_deps = example_env"
  by (simp_all add: scripted_deps_def)

lemma w1:
  "heap world_1 = [empty_cart]" "cart (st world_1) = 0"
  "stage (st world_1) = Stage_SHOPPING" "length (messages (st world_1)) = 2"
  "customer_name (st world_1) = None" "customer_city (st world_1) = None"
  by (simp_all add: world_1_def send_message_def run_conversation_turn_def
      detect_intent_node_def
      create_initial_state_def show_welcome_message_def append_message_def route_by_intent_def
      run_handler_def set_intent_def)

lemma find_camiseta_cat:
  "catalog_service d = test_catalog \<Longrightarrow>
   find_product d (add_camisetas n) w = Inr (Some camiseta_test)"
  by (simp add: find_product_def add_camisetas_def Let_def get_by_id_def
      get_by_name_def test_catalog_def lower_def lower_char_def strip_def is_space_def
      producto_1_def producto_2_def camiseta_test_def)

lemma scripted_catalog: "catalog_service scripted_deps = test_catalog"
  by (simp add: scripted_deps_def)

lemma intents:
  "UserIntent_of (lower (upper (strip ''MANAGE_CART''))) = Some MANAGE_CART"
  "UserIntent_of (lower (upper (strip ''CHECKOUT''))) = Some CHECKOUT"
  by (simp_all add: UserIntent_of_def intent_value_def strip_def is_space_def lower_def
      upper_def lower_char_def upper_char_def)

lemma words:
  "\<not> contains (lower ''quiero 2 camiseta test'') ''comprar''"
  "contains (lower ''quiero comprar'') ''comprar''"
  by (simp_all add: lower_def lower_char_def)

lemmas turn_defs = send_message_def run_conversation_turn_def detect_intent_node_def Let_def
  get_last_user_message_def is_human_def content_def scripted_fields scripted_llm_def intents words route_by_intent_def run_handler_def
  set_intent_def unset_def

lemmas manage_defs = manage_cart_node_def extract_cart_action_def
  find_camiseta_cat[OF scripted_catalog] execute_cart_action_def add_to_cart_def on_cart_def
  add_item_def is_available_def camiseta_fields reply_shopping_def append_message_def
  add_camisetas_fields

lemma w2:
  "heap world_2 = [\<lparr>items = [(''prod_001'', \<lparr>product = camiseta_test, quantity = 2\<rparr>)]\<rparr>]"
  "cart (st world_2) = 0"
  "stage (st world_2) = Stage_SHOPPING" "length (messages (st world_2)) = 4"
  "customer_name (st world_2) = None" "customer_city (st world_2) = None"
  by (simp_all add: world_2_def turn_defs manage_defs w1 empty_cart_def)

lemma words2:
  "lower ''Juan'' = ''juan''" "lower ''Madrid'' = ''madrid''"
  "lower ''quiero comprar'' = ''quiero comprar''"
  "lower ''quiero 2 camiseta test'' = ''quiero 2 camiseta test''"
  "extract_name_from_message ''Juan'' = Some ''Juan''"
  "strip ''Madrid'' = ''Madrid''" "strip ''Juan'' = ''Juan''"
  by (simp_all add: lower_def lower_char_def extract_name_from_message_def strip_def
      is_space_def Let_def)

lemmas checkout_defs = checkout_node_def collect_customer_name_def is_empty_def words2
  append_message_def

lemma w3:
  "heap world_3 = [\<lparr>items = [(''prod_001'', \<lparr>product = camiseta_test, quantity = 2\<rparr>)]\<rparr>]"
  "cart (st world_3) = 0"
  "stage (st world_3) = Stage_CHECKOUT" "length (messages (st world_3)) = 6"
  "customer_name (st world_3) = None" "customer_city (st world_3) = None"
  by (simp_all add: world_3_def turn_defs checkout_defs w2)

lemma w4:
  "heap world_4 = [\<lparr>items = [(''prod_001'', \<lparr>product = camiseta_test, quantity = 2\<rparr>)]\<rparr>]"
  "cart (st world_4) = 0"
  "stage (st world_4) = Stage_CHECKOUT" "length (messages (st world_4)) = 8"
  "customer_name (st world_4) = Some ''Juan''" "customer_city (st world_4) = None"
  by (simp_all add: world_4_def turn_defs checkout_defs w3)

lemma total_2: "get_total \<lparr>items = [(''prod_001'', \<lparr>product = camiseta_test, quantity = 2\<rparr>)]\<rparr> = 3998 / 100"
  by (simp add: get_total_def subtotal_def)
     (simp add: camiseta_test_def round2_def round_half_even_def)

lemma w5:
  "heap world_5 = [\<lparr>items = []\<rparr>,
                   \<lparr>items = [(''prod_001'', \<lparr>product = camiseta_test, quantity = 2\<rparr>)]\<rparr>]"
  "cart (st world_5) = 0"
  "stage (st world_5) = Stage_COMPLETED" "length (messages (st world_5)) = 10"
  "customer_name (st world_5) = Some ''Juan''" "customer_city (st world_5) = Some ''Madrid''"
  by (simp_all add: world_5_def turn_defs checkout_defs w4 complete_order_def
      create_from_cart_def deepcopy_def Order_init_def total_2 on_cart_def clear_def)

lemma w6:
  "heap world_6 = [\<lparr>items = [(''prod_001'', \<lparr>product = camiseta_test, quantity = 2\<rparr>)]\<rparr>,
                   \<lparr>items = [(''prod_001'', \<lparr>product = camiseta_test, quantity = 2\<rparr>)]\<rparr>]"
  "cart (st world_6) = 0"
  "stage (st world_6) = Stage_SHOPPING" "length (messages (st world_6)) = 12"
  "customer_name (st world_6) = Some ''Juan''" "customer_city (st world_6) = Some ''Madrid''"
  by (simp_all add: world_6_def turn_defs manage_defs w5)

lemma w7:
  "send_message scripted_deps ''quiero comprar'' world_6 =
     (Inr (), world_6\<lparr>st := (st world_6)\<lparr>messages := messages (st world_6)
                                         @ [HumanMessage ''quiero comprar''],
                                       current_intent := CHECKOUT\<rparr>,
                     llm_log := llm_log world_6 @
                       [IntentDetection ''quiero comprar''
                          (build_context scripted_deps
                             (world_6\<lparr>st := (st world_6)\<lparr>messages := messages (st world_6)
                                         @ [HumanMessage ''quiero comprar'']\<rparr>\<rparr>))]\<rparr>)"
  by (simp add: turn_defs checkout_defs w6)

subsection \<open>One assistant message for each handler\<close>

lemma checkout_silent:
  assumes "\<not> is_empty (heap w ! cart (st w))" "\<not> unset (customer_name (st w))"
    "\<not> unset (customer_city (st w))"
  shows "checkout_node d w = (Inr (), w)"
  using assms by (simp add: checkout_node_def Let_def)

lemma browse_one: "\<exists>m. new_messages w (snd (browse_products_node d w)) = [AIMessage m]"
  by (simp add: browse_products_node_def Let_def new_messages_def append_message_def)

lemma view_one: "\<exists>m. new_messages w (snd (view_cart_node d w)) = [AIMessage m]"
  by (simp add: view_cart_node_def Let_def new_messages_def append_message_def)

lemma reply_shopping_one: "messages (st w') = messages (st w) @ ms \<Longrightarrow>
   new_messages w (snd (reply_shopping m w')) = ms @ [AIMessage m]"
  by (simp add: reply_shopping_def new_messages_def append_message_def)

lemma out_of_context_one: "\<exists>m. new_messages w (snd (out_of_context_node d w)) = [AIMessage m]"
  by (auto simp: out_of_context_node_def Let_def reply_shopping_one split: sum.splits)

lemma collect_one: "\<exists>m. new_messages w (snd (collect_customer_name w u)) = [AIMessage m]"
  by (simp add: collect_customer_name_def Let_def new_messages_def append_message_def
      split: option.splits)

lemma extract_cart_action_messages:
  "extract_cart_action d u w = (r, w1) \<Longrightarrow> messages (st w1) = messages (st w)"
  by (auto simp add: extract_cart_action_def Let_def split: sum.splits)

lemma execute_cart_action_messages:
  "execute_cart_action a p w = (r, w1) \<Longrightarrow> messages (st w1) = messages (st w)"
  by (auto simp add: execute_cart_action_def Let_def)

lemma reply_shopping_new:
  "messages (st w1) = messages (st w) \<Longrightarrow>
   \<exists>m'. new_messages w (snd (reply_shopping m w1)) = [AIMessage m']"
  by (simp add: reply_shopping_def new_messages_def append_message_def)

lemma send_cart_error_message_new:
  "messages (st w1) = messages (st w) \<Longrightarrow>
   \<exists>m'. new_messages w (snd (send_cart_error_message w1 t)) = [AIMessage m']"
  unfolding send_cart_error_message_def by (rule reply_shopping_new)

lemma manage_cart_one: "\<exists>m. new_messages w (snd (manage_cart_node d w)) = [AIMessage m]"
  unfolding manage_cart_node_def Let_def
  by (auto split: prod.splits sum.splits option.splits
      intro!: reply_shopping_new send_cart_error_message_new
      dest!: extract_cart_action_messages execute_cart_action_messages)

text \<open>
  C4. The browse, manage-cart, view-cart and out-of-context nodes append exactly one
  assistant message in every state, and so does the checkout node while the cart is empty
  or the customer name is unset. The checkout node fails the claim: in the session of
  \<open>world_6\<close> (a purchase completed, then the cart filled again) the user asks to buy, the
  classifier answers CHECKOUT, the router chooses the checkout node, and the node returns
  the state as it got it, with no assistant message.
\<close>

theorem checkout_node_silent_on_second_purchase:
  "route_by_intent (st second_checkout_world) = Route_checkout
   \<and> \<not> is_empty (heap second_checkout_world ! cart (st second_checkout_world))
   \<and> customer_name (st second_checkout_world) = Some ''Juan''
   \<and> customer_city (st second_checkout_world) = Some ''Madrid''
   \<and> checkout_node scripted_deps second_checkout_world = (Inr (), second_checkout_world)
   \<and> new_messages second_checkout_world
         (snd (checkout_node scripted_deps second_checkout_world)) = []
   \<and> new_messages world_6 (snd (send_message scripted_deps ''quiero comprar'' world_6))
       = [HumanMessage ''quiero comprar'']"
proof -
  have d: "second_checkout_world =
       world_6\<lparr>st := (st world_6)\<lparr>messages := messages (st world_6)
                                         @ [HumanMessage ''quiero comprar''],
                                       current_intent := CHECKOUT\<rparr>,
                     llm_log := llm_log world_6 @
                       [IntentDetection ''quiero comprar''
                          (build_context scripted_deps
                             (world_6\<lparr>st := (st world_6)\<lparr>messages := messages (st world_6)
                                         @ [HumanMessage ''quiero comprar'']\<rparr>\<rparr>))]\<rparr>"
    by (simp add: second_checkout_world_def turn_defs w6)
  have f: "heap second_checkout_world = heap world_6"
    "cart (st second_checkout_world) = 0"
    "customer_name (st second_checkout_world) = Some ''Juan''"
    "customer_city (st second_checkout_world) = Some ''Madrid''"
    "current_intent (st second_checkout_world) = CHECKOUT"
    by (simp_all add: d w6)
  have n: "\<not> is_empty (heap second_checkout_world ! cart (st second_checkout_world))"
    by (simp add: f w6 is_empty_def)
  have c: "checkout_node scripted_deps second_checkout_world = (Inr (), second_checkout_world)"
    by (rule checkout_silent, rule n) (simp_all add: f unset_def)
  show ?thesis
    using n by (simp add: c f route_by_intent_def new_messages_def w7)
qed

subsection \<open>Insufficient stock in the manage-cart node\<close>

text \<open>
  When the requested quantity alone exceeds the stock, adding and updating answer with the
  warning that only \<open>stock\<close> units are available, and the store keeps its carts.
\<close>

lemma add_to_cart_over_stock:
  "stock p < q \<Longrightarrow> add_to_cart c p q h = (Inr (msg_only_stock p), h)"
  by (simp add: add_to_cart_def)

lemma update_cart_quantity_over_stock:
  "stock p < q \<Longrightarrow> q \<noteq> 0 \<Longrightarrow>
   update_cart_quantity c p q h = (Inr (msg_only_stock p), h)"
  by (simp add: update_cart_quantity_def Let_def split: option.splits)

lemma action_deps_catalog: "catalog_service (action_deps a) = test_catalog"
  by (simp add: action_deps_def)

text \<open>
  C8. With 30 units of a product of stock 50 in the cart, the user asks for 30 more. Each
  request is within the stock, their sum is not. The helper of the node compares the stock
  with the requested quantity only, so the cart raises its stock error inside the node, and
  the node answers with the message of an unexpected failure, which says nothing of the
  stock, where the warning of insufficient stock is expected. The cart is left unchanged.
\<close>

theorem manage_cart_cumulative_add_generic_error:
  "quantity_in_cart (heap (shopping_world 30 ''quiero 30 camiseta test'') ! 0) ''prod_001'' = 30
   \<and> quantity' (add_camisetas 30) = 30
   \<and> stock camiseta_test = 50
   \<and> new_messages (shopping_world 30 ''quiero 30 camiseta test'')
        (snd (manage_cart_node (action_deps (add_camisetas 30))
                (shopping_world 30 ''quiero 30 camiseta test'')))
      = [AIMessage ([CHR 0xE2, CHR 0x9D, CHR 0x8C] @ '' Ocurri'' @ [CHR 0xC3, CHR 0xB3]
                    @ '' un error. Por favor intenta de nuevo.'')]
   \<and> new_messages (shopping_world 30 ''quiero 30 camiseta test'')
        (snd (manage_cart_node (action_deps (add_camisetas 30))
                (shopping_world 30 ''quiero 30 camiseta test'')))
      \<noteq> [AIMessage (msg_only_stock camiseta_test)]
   \<and> heap (snd (manage_cart_node (action_deps (add_camisetas 30))
                   (shopping_world 30 ''quiero 30 camiseta test'')))
      = heap (shopping_world 30 ''quiero 30 camiseta test'')"
proof -
  let ?W = "shopping_world 30 ''quiero 30 camiseta test''"
  let ?D = "action_deps (add_camisetas 30)"
  have r: "new_messages ?W (snd (manage_cart_node ?D ?W))
             = [AIMessage (handle_llm_error (InsufficientStock camiseta_test (Some 30)))]
           \<and> heap (snd (manage_cart_node ?D ?W)) = heap ?W"
    by (simp add: manage_cart_node_def extract_cart_action_def Let_def action_deps_fields
        find_camiseta_cat[OF action_deps_catalog] execute_cart_action_def
        shopping_world_fields add_to_cart_def on_cart_def add_item_def is_available_def
        camiseta_fields reply_shopping_def new_messages_def append_message_def
        add_camisetas_fields)
  have q: "quantity_in_cart (heap ?W ! 0) ''prod_001'' = 30"
    by (simp add: shopping_world_fields quantity_in_cart_def)
  have m: "[CHR 0xE2, CHR 0x9D, CHR 0x8C] @ '' Ocurri'' @ [CHR 0xC3, CHR 0xB3]
             @ '' un error. Por favor intenta de nuevo.'' \<noteq> msg_only_stock camiseta_test"
    by (simp add: msg_only_stock_def)
  show ?thesis
    using r q m by (simp only: generic add_camisetas_fields camiseta_fields)  simp
qed

end
